theory Spec2Isabelle
  imports Main "HOL-Library.Sublist" "HOL-Library.AList"
begin

chapter \<open>The program\<close>

section \<open>Strings\<close>

text \<open>
  A JavaScript string is modelled as a \<^typ>\<open>string\<close>: a list of characters, each character
  standing for the UTF-16 code unit of the same number (U+0000 to U+00FF). The white space of
  \<open>String.prototype.trim\<close> and of the regular-expression class \<open>\s\<close> is, in that range,
  TAB, LF, VT, FF, CR, SPACE and NBSP; the line terminators that \<open>.\<close> refuses are LF and CR.
  \<open>s.startsWith(p)\<close> is \<^term>\<open>prefix p s\<close>, \<open>s.endsWith(p)\<close> is \<^term>\<open>suffix p s\<close>,
  \<open>s.includes(p)\<close> is \<^term>\<open>sublist p s\<close>. An optional string is a \<^typ>\<open>string option\<close>;
  it is truthy when it is present and not empty.
\<close>

abbreviation LF :: char where "LF \<equiv> CHR 0x0A"
abbreviation CR :: char where "CR \<equiv> CHR 0x0D"

definition isSpace :: "char \<Rightarrow> bool" where
  "isSpace c \<longleftrightarrow> c \<in> set [CHR 0x09, CHR 0x0A, CHR 0x0B, CHR 0x0C, CHR 0x0D, CHR 0x20, CHR 0xA0]"

definition isLineTerminator :: "char \<Rightarrow> bool" where
  "isLineTerminator c \<longleftrightarrow> c = LF \<or> c = CR"

text \<open>The class \<open>[A-Za-z0-9_-]\<close> of metadata keys and route tokens.\<close>

definition isTokenChar :: "char \<Rightarrow> bool" where
  "isTokenChar c \<longleftrightarrow>
     (let n = (of_char c :: nat)
      in (65 \<le> n \<and> n \<le> 90) \<or> (97 \<le> n \<and> n \<le> 122) \<or> (48 \<le> n \<and> n \<le> 57)
         \<or> c = CHR ''_'' \<or> c = CHR ''-'')"

definition trimStart :: "string \<Rightarrow> string" where
  "trimStart s = dropWhile isSpace s"

definition trimEnd :: "string \<Rightarrow> string" where
  "trimEnd s = rev (dropWhile isSpace (rev s))"

definition trim :: "string \<Rightarrow> string" where
  "trim s = trimEnd (trimStart s)"

text \<open>\<open>toLowerCase\<close> on U+0000 to U+00FF: the letters A to Z and the Latin-1 capitals
  U+00C0 to U+00DE (but the multiplication sign U+00D7) move up by 32.\<close>

definition lowerChar :: "char \<Rightarrow> char" where
  "lowerChar c =
     (let n = (of_char c :: nat)
      in if (65 \<le> n \<and> n \<le> 90) \<or> (192 \<le> n \<and> n \<le> 222 \<and> n \<noteq> 215) then char_of (n + 32) else c)"

definition toLowerCase :: "string \<Rightarrow> string" where
  "toLowerCase s = map lowerChar s"

text \<open>\<open>toUpperCase\<close>, used only for labels and breadcrumb names: the letters a to z and
  the Latin-1 small letters U+00E0 to U+00FE (but the division sign U+00F7) move down by 32. The
  upper case of U+00B5, U+00DF and U+00FF lies outside the modelled range; they are left as
  they are.\<close>

definition upperChar :: "char \<Rightarrow> char" where
  "upperChar c =
     (let n = (of_char c :: nat)
      in if (97 \<le> n \<and> n \<le> 122) \<or> (224 \<le> n \<and> n \<le> 254 \<and> n \<noteq> 247) then char_of (n - 32) else c)"

definition toUpperCase :: "string \<Rightarrow> string" where
  "toUpperCase s = map upperChar s"

definition truthy :: "string option \<Rightarrow> bool" where
  "truthy v = (case v of None \<Rightarrow> False | Some s \<Rightarrow> s \<noteq> [])"

text \<open>\<open>a || b\<close> on optional strings.\<close>

definition orElse :: "string option \<Rightarrow> string option \<Rightarrow> string option" where
  "orElse a b = (if truthy a then a else b)"

text \<open>\<open>value || undefined\<close>: an empty string becomes absent.\<close>

definition nonEmpty :: "string \<Rightarrow> string option" where
  "nonEmpty s = (if s = [] then None else Some s)"

text \<open>\<open>s.split(d)\<close> for a one-character separator: always at least one piece.\<close>

fun splitOn :: "char \<Rightarrow> string \<Rightarrow> string list" where
  "splitOn d [] = [[]]"
| "splitOn d (c # cs) =
     (if c = d then [] # splitOn d cs
      else (case splitOn d cs of [] \<Rightarrow> [[c]] | w # ws \<Rightarrow> (c # w) # ws))"

text \<open>\<open>s.split(/\r?\n/)\<close>: a line ends at LF or at CR LF; a lone CR stays in its line.\<close>

fun splitLines :: "string \<Rightarrow> string list" where
  "splitLines [] = [[]]"
| "splitLines [c] = (if c = LF then [[], []] else [[c]])"
| "splitLines (c # d # cs) =
     (if c = LF then [] # splitLines (d # cs)
      else if c = CR \<and> d = LF then [] # splitLines cs
      else (case splitLines (d # cs) of [] \<Rightarrow> [[c]] | w # ws \<Rightarrow> (c # w) # ws))"

text \<open>\<open>pieces.join(sep)\<close>.\<close>

fun joinWith :: "string \<Rightarrow> string list \<Rightarrow> string" where
  "joinWith sep [] = []"
| "joinWith sep [x] = x"
| "joinWith sep (x # y # ys) = x @ sep @ joinWith sep (y # ys)"

text \<open>\<open>s.replace(/\s+/g, r)\<close>: every maximal run of white space becomes \<open>r\<close>.\<close>

fun replaceSpaceRuns :: "string \<Rightarrow> string \<Rightarrow> string" where
  "replaceSpaceRuns r [] = []"
| "replaceSpaceRuns r [a] = (if isSpace a then r else [a])"
| "replaceSpaceRuns r (a # b # cs) =
     (if isSpace a then (if isSpace b then replaceSpaceRuns r (b # cs) else r @ replaceSpaceRuns r (b # cs))
      else a # replaceSpaceRuns r (b # cs))"

text \<open>\<open>String(n)\<close> for a natural number and for an integer, in decimal. Numbers of the
  program (\<open>navOrder\<close>, loop indices) are modelled as integers.\<close>

definition digitChar :: "nat \<Rightarrow> char" where
  "digitChar n = char_of (48 + n)"

function showNat :: "nat \<Rightarrow> string" where
  "showNat n = (if n < 10 then [digitChar n] else showNat (n div 10) @ [digitChar (n mod 10)])"
  by pat_completeness auto
termination
  by (relation "measure id") auto

definition showInt :: "int \<Rightarrow> string" where
  "showInt i = (if i < 0 then CHR ''-'' # showNat (nat (- i)) else showNat (nat i))"

section \<open>Path utilities (utils/path.ts)\<close>




definition isMarkdownFile :: "string \<Rightarrow> bool" where
  "isMarkdownFile fileName \<longleftrightarrow> suffix ''.md'' fileName \<and> toLowerCase fileName \<noteq> ''readme.md''"


text \<open>\<open>normalized.replace(/\/+/g, '/')\<close>: every maximal run of slashes becomes one slash.\<close>

fun collapseSlashes :: "string \<Rightarrow> string" where
  "collapseSlashes (a # b # cs) =
     (if a = CHR ''/'' \<and> b = CHR ''/'' then collapseSlashes (b # cs)
      else a # collapseSlashes (b # cs))"
| "collapseSlashes cs = cs"

text \<open>\<open>normalized.replace(/\/+$/, '')\<close>: the run of slashes that ends the string is removed.\<close>

definition stripTrailingSlashes :: "string \<Rightarrow> string" where
  "stripTrailingSlashes s = rev (dropWhile (\<lambda>c. c = CHR ''/'') (rev s))"

text \<open>
  \<^verbatim>\<open>
  export const normalizePath = (value: string) => {
    if (!value) return '/'
    const withoutQuery = value.split('?')[0] || ''
    let normalized = withoutQuery.trim()
    if (!normalized.startsWith('/')) { normalized = `/${normalized}` }
    normalized = normalized.replace(/\/+/g, '/')
    if (normalized.length > 1 && normalized.endsWith('/')) {
      normalized = normalized.replace(/\/+$/, '')
    }
    return normalized || '/'
  }
  \<close>
  \<open>value.split('?')[0]\<close> is the text before the first question mark.
\<close>

definition normalizePath :: "string \<Rightarrow> string" where
  "normalizePath v =
     (if v = [] then ''/''
      else
        let withoutQuery = takeWhile (\<lambda>c. c \<noteq> CHR ''?'') v;
            n1 = trim withoutQuery;
            n2 = (if prefix ''/'' n1 then n1 else ''/'' @ n1);
            n3 = collapseSlashes n2;
            n4 = (if length n3 > 1 \<and> suffix ''/'' n3 then stripTrailingSlashes n3 else n3)
        in if n4 = [] then ''/'' else n4)"

text \<open>\<open>titleCase\<close>: runs of hyphens and underscores become a space, then every word is
  lower-cased and capitalised, a word of \<open>TITLE_CASE_UPPER\<close> upper-cased. \<open>split(/\s+/)\<close> of the
  trimmed text yields its white-space separated words.\<close>

fun replaceDashRuns :: "string \<Rightarrow> string" where
  "replaceDashRuns [] = []"
| "replaceDashRuns [a] = (if a = CHR ''-'' \<or> a = CHR ''_'' then '' '' else [a])"
| "replaceDashRuns (a # b # cs) =
     (if a = CHR ''-'' \<or> a = CHR ''_''
      then (if b = CHR ''-'' \<or> b = CHR ''_'' then replaceDashRuns (b # cs)
            else CHR '' '' # replaceDashRuns (b # cs))
      else a # replaceDashRuns (b # cs))"

definition TITLE_CASE_UPPER :: "string list" where
  "TITLE_CASE_UPPER = [''pdf'', ''usps'', ''usa'', ''ai'', ''api'', ''mcp'', ''llm'', ''llms'', ''id'']"

definition titleWord :: "string \<Rightarrow> string" where
  "titleWord word =
     (let lower = toLowerCase word
      in if lower \<in> set TITLE_CASE_UPPER then toUpperCase lower
         else toUpperCase (take 1 lower) @ drop 1 lower)"

definition titleCase :: "string \<Rightarrow> string" where
  "titleCase v =
     (let cleaned = trim (replaceDashRuns v)
      in if cleaned = [] then []
         else joinWith '' '' (map titleWord (splitOn (CHR '' '') (replaceSpaceRuns '' '' cleaned))))"

definition buildMarkdownPath :: "string \<Rightarrow> string" where
  "buildMarkdownPath pathValue = (if pathValue = ''/'' then ''/index.md'' else pathValue @ ''.md'')"

section \<open>Content types (types.ts)\<close>

text \<open>The records of \<open>types.ts\<close>. A field keeps its name behind a prefix that names its
  record; an optional field is an \<open>option\<close>.\<close>

datatype SeoRouteGroup = UseCases | Company | Resources | Content

fun groupName :: "SeoRouteGroup \<Rightarrow> string" where
  "groupName UseCases = ''use-cases''"
| "groupName Company = ''company''"
| "groupName Resources = ''resources''"
| "groupName Content = ''content''"

datatype SeoSchemaType = Software | Article | Product | Webpage

fun schemaName :: "SeoSchemaType \<Rightarrow> string" where
  "schemaName Software = ''software''"
| "schemaName Article = ''article''"
| "schemaName Product = ''product''"
| "schemaName Webpage = ''webpage''"

record SeoRoute =
  route_path :: string
  route_label :: string
  route_group :: SeoRouteGroup
  route_indexable :: bool
  route_publishedAt :: "string option"
  route_updatedAt :: "string option"
  route_nav :: "bool option"
  route_navOrder :: "int option"
  route_llms :: "bool option"

record SeoLink =
  link_label :: string
  link_href :: string

record SeoBreadcrumb =
  crumb_name :: string
  crumb_path :: string

record SeoCta =
  cta_label :: string
  cta_href :: string
  cta_note :: "string option"

record SeoFaq =
  faq_question :: string
  faq_answer :: string

record SeoSection =
  section_heading :: string
  section_markdown :: string

record SeoStep =
  step_title :: string
  step_description :: string

record SeoPricing =
  pricing_headline :: string
  pricing_detail :: string

record SeoTrustItem =
  item_title :: string
  item_description :: string

record SeoTrust =
  trust_title :: string
  trust_items :: "SeoTrustItem list"

record SeoPageContent =
  pc_path :: string
  pc_group :: SeoRouteGroup
  pc_indexable :: bool
  pc_publishedAt :: "string option"
  pc_updatedAt :: "string option"
  pc_llms :: "bool option"
  pc_nav :: "bool option"
  pc_navOrder :: "int option"
  pc_tags :: "string list option"
  pc_markdownPath :: "string option"
  pc_eyebrow :: "string option"
  pc_title :: string
  pc_heading :: string
  pc_description :: "string option"
  pc_seoTitle :: "string option"
  pc_seoDescription :: "string option"
  pc_ogImage :: "string option"
  pc_ogType :: "string option"
  pc_schemaType :: "SeoSchemaType option"
  pc_cta :: "SeoCta option"
  pc_steps :: "SeoStep list option"
  pc_pricing :: "SeoPricing option"
  pc_trust :: "SeoTrust option"
  pc_faqs :: "SeoFaq list option"
  pc_featureList :: "string list option"
  pc_sections :: "SeoSection list option"
  pc_relatedLinks :: "SeoLink list option"
  pc_resourceLinks :: "SeoLink list option"
  pc_breadcrumbs :: "SeoBreadcrumb list option"

section \<open>The shared parsing engine (markdown/shared.ts)\<close>

text \<open>A block token of the \<open>marked\<close> lexer, with the fields the program reads: \<open>type\<close>,
  \<open>depth\<close> (of a heading), \<open>text\<close>, \<open>raw\<close> and, for a list, the \<open>text\<close> of its items (an item
  without text as the empty string). The lexer itself is a library outside the repository:
  every function that calls \<open>marked.lexer\<close> takes it as the parameter \<open>lexer\<close>.\<close>

record token =
  tok_type :: string
  tok_depth :: nat
  tok_text :: "string option"
  tok_raw :: "string option"
  tok_items :: "string list"

text \<open>\<open>MetaBlock = Record<string, string | string[]>\<close>: the entries in insertion order;
  an assignment \<open>meta[key] = v\<close> is \<^term>\<open>AList.update key v meta\<close>, a read is
  \<^term>\<open>map_of meta key\<close>.\<close>

datatype meta_value = MStr string | MList "string list"

type_synonym MetaBlock = "(string \<times> meta_value) list"

record MarkdownSection =
  sec_heading :: string
  sec_tokens :: "token list"
  sec_raw :: string

subsection \<open>stripMarkdown\<close>

text \<open>\<open>replace(/`([^`]+)`/g, '$1')\<close> and \<open>replace(/_([^_]+)_/g, '$1')\<close>: at a delimiter
  followed by a non-empty run without the delimiter and then the delimiter, the run is kept
  and the scan goes on after the closing delimiter.\<close>

function unwrapDelimited :: "char \<Rightarrow> string \<Rightarrow> string" where
  "unwrapDelimited d [] = []"
| "unwrapDelimited d (c # cs) =
     (if c = d \<and> takeWhile (\<lambda>x. x \<noteq> d) cs \<noteq> [] \<and> dropWhile (\<lambda>x. x \<noteq> d) cs \<noteq> []
      then takeWhile (\<lambda>x. x \<noteq> d) cs @ unwrapDelimited d (tl (dropWhile (\<lambda>x. x \<noteq> d) cs))
      else c # unwrapDelimited d cs)"
  by pat_completeness auto
termination
  by (relation "measure (\<lambda>(d, s). length s)")
     (auto simp: le_imp_less_Suc le_trans [OF diff_le_self length_dropWhile_le])

text \<open>\<open>replace(/\*\*([^*]+)\*\*/g, '$1')\<close>.\<close>

function unwrapBold :: "string \<Rightarrow> string" where
  "unwrapBold [] = []"
| "unwrapBold (c # cs) =
     (if c = CHR ''*'' \<and> prefix ''*'' cs
         \<and> takeWhile (\<lambda>x. x \<noteq> CHR ''*'') (drop 1 cs) \<noteq> []
         \<and> prefix ''**'' (dropWhile (\<lambda>x. x \<noteq> CHR ''*'') (drop 1 cs))
      then takeWhile (\<lambda>x. x \<noteq> CHR ''*'') (drop 1 cs)
           @ unwrapBold (drop 2 (dropWhile (\<lambda>x. x \<noteq> CHR ''*'') (drop 1 cs)))
      else c # unwrapBold cs)"
  by pat_completeness auto
termination
proof (relation "measure length")
  show "wf (measure length)" by simp
next
  fix c :: char and cs :: string
  have "length (dropWhile (\<lambda>x. x \<noteq> CHR ''*'') (drop 1 cs)) \<le> length cs"
    using length_dropWhile_le [of "\<lambda>x. x \<noteq> CHR ''*''" "drop 1 cs"] by simp
  then show "(drop 2 (dropWhile (\<lambda>x. x \<noteq> CHR ''*'') (drop 1 cs)), c # cs) \<in> measure length"
    by simp
next
  fix c :: char and cs :: string
  show "(cs, c # cs) \<in> measure length" by simp
qed

text \<open>The link pattern \<open>/\[(.+?)\]\((.+?)\)/\<close>, tried at one position. Both groups are lazy
  and take at least one character that is no line terminator. \<open>matchHref\<close> is \<open>(.+?)\)\<close>:
  the target and the text after the closing parenthesis. \<open>matchLabel acc t\<close> extends the label
  \<open>acc\<close> over \<open>t\<close> until \<open>](\<close> and a target follow. \<open>matchLink\<close> yields the label, the target
  and the text after the match.\<close>

definition matchHref :: "string \<Rightarrow> (string \<times> string) option" where
  "matchHref u =
     (case u of
        [] \<Rightarrow> None
      | c # cs \<Rightarrow>
          if isLineTerminator c then None
          else (case dropWhile (\<lambda>x. x \<noteq> CHR '')'' \<and> \<not> isLineTerminator x) cs of
                  [] \<Rightarrow> None
                | r # rs \<Rightarrow>
                    if r = CHR '')''
                    then Some (c # takeWhile (\<lambda>x. x \<noteq> CHR '')'' \<and> \<not> isLineTerminator x) cs, rs)
                    else None))"

fun matchLabel :: "string \<Rightarrow> string \<Rightarrow> (string \<times> string \<times> string) option" where
  "matchLabel acc [] = None"
| "matchLabel acc (c # cs) =
     (case (if c = CHR '']'' \<and> prefix ''('' cs then matchHref (drop 1 cs) else None) of
        Some (h, rest) \<Rightarrow> Some (acc, h, rest)
      | None \<Rightarrow> if isLineTerminator c then None else matchLabel (acc @ [c]) cs)"

definition matchLink :: "string \<Rightarrow> (string \<times> string \<times> string) option" where
  "matchLink s =
     (case s of
        c # d # cs \<Rightarrow> if c = CHR ''['' \<and> \<not> isLineTerminator d then matchLabel [d] cs else None
      | _ \<Rightarrow> None)"

lemma matchHref_length: "matchHref u = Some (h, rest) \<Longrightarrow> length rest < length u"
proof -
  assume a: "matchHref u = Some (h, rest)"
  then obtain c cs where u: "u = c # cs" by (cases u) (simp_all add: matchHref_def)
  define d where "d = dropWhile (\<lambda>x. x \<noteq> CHR '')'' \<and> \<not> isLineTerminator x) cs"
  from a u have "(case d of [] \<Rightarrow> None | r # rs \<Rightarrow>
       if r = CHR '')'' then Some (c # takeWhile (\<lambda>x. x \<noteq> CHR '')'' \<and> \<not> isLineTerminator x) cs, rs) else None)
       = Some (h, rest)"
    unfolding d_def matchHref_def by (simp split: if_splits)
  then obtain r where "d = r # rest"
    by (cases d) (simp_all split: if_splits)
  then have "length rest < length d" by simp
  also have "\<dots> \<le> length cs" unfolding d_def by (rule length_dropWhile_le)
  finally show ?thesis using u by simp
qed

lemma matchLabel_length: "matchLabel acc t = Some (l, h, rest) \<Longrightarrow> length rest < length t"
proof (induction t arbitrary: acc)
  case Nil
  then show ?case by simp
next
  case (Cons c cs)
  show ?case
  proof (cases "if c = CHR '']'' \<and> prefix ''('' cs then matchHref (drop 1 cs) else None")
    case None
    with Cons.prems have "matchLabel (acc @ [c]) cs = Some (l, h, rest)"
      by (simp split: if_splits)
    from Cons.IH [OF this] show ?thesis by simp
  next
    case (Some p)
    then obtain h' r' where p: "p = (h', r')" by (cases p)
    with Some Cons.prems have r: "r' = rest" by simp
    from Some p have "matchHref (drop 1 cs) = Some (h', r')" by (simp split: if_splits)
    from matchHref_length [OF this] r have "length rest < length (drop 1 cs)" by simp
    then show ?thesis by simp
  qed
qed

lemma matchLink_length: "matchLink s = Some (l, h, rest) \<Longrightarrow> length rest < length s"
proof -
  assume a: "matchLink s = Some (l, h, rest)"
  then obtain c d cs where s: "s = c # d # cs"
    by (cases s; cases "tl s") (simp_all add: matchLink_def)
  with a have "matchLabel [d] cs = Some (l, h, rest)"
    by (simp add: matchLink_def split: if_splits)
  from matchLabel_length [OF this] s show ?thesis by simp
qed

text \<open>\<open>replace(/\[(.+?)\]\((.+?)\)/g, '$1')\<close>: every link becomes its label.\<close>

function stripLinks :: "string \<Rightarrow> string" where
  "stripLinks [] = []"
| "stripLinks (c # cs) =
     (case matchLink (c # cs) of
        Some (l, h, rest) \<Rightarrow> l @ stripLinks rest
      | None \<Rightarrow> c # stripLinks cs)"
  by pat_completeness auto
termination
proof (relation "measure length", goal_cases)
  case 1
  show ?case by simp
next
  case (2 c cs)
  show ?case by simp
next
  case (3 c cs p l q h rest)
  then have "matchLink (c # cs) = Some (l, h, rest)" by simp
  from matchLink_length [OF this] show ?case by simp
qed

text \<open>
  \<^verbatim>\<open>
  export const stripMarkdown = (value: string) =>
    value.replace(/`([^`]+)`/g, '$1').replace(/\*\*([^*]+)\*\*/g, '$1')
      .replace(/_([^_]+)_/g, '$1').replace(/\[(.+?)\]\((.+?)\)/g, '$1')
      .replace(/\s+/g, ' ').trim()
  \<close>
\<close>

definition stripMarkdown :: "string \<Rightarrow> string" where
  "stripMarkdown v =
     trim (replaceSpaceRuns '' '' (stripLinks (unwrapDelimited (CHR ''_'')
       (unwrapBold (unwrapDelimited (CHR 0x60) v)))))"

subsection \<open>List-item grammars\<close>

text \<open>The tail \<open>\s+(.+)$\<close> (\<open>minWs = 1\<close>) or \<open>\s*(.+)$\<close> (\<open>minWs = 0\<close>) of a pattern: the
  group. The white space is taken greedily; the group must reach the end of the text without
  a line terminator, and takes the last white-space character when nothing else is left.\<close>

definition matchSpacedRest :: "nat \<Rightarrow> string \<Rightarrow> string option" where
  "matchSpacedRest minWs t =
     (let ws = takeWhile isSpace t; rem = dropWhile isSpace t
      in if \<not> list_all (\<lambda>c. \<not> isLineTerminator c) rem then None
         else if rem \<noteq> [] then (if minWs \<le> length ws then Some rem else None)
         else if minWs < length ws \<and> \<not> isLineTerminator (last ws) then Some [last ws]
         else None)"

text \<open>\<open>cleaned.match(/^(.+?)\s*(?:-|:)\s+(.+)$/)\<close>: the lazy first group \<open>acc\<close> grows over
  \<open>t\<close> until white space, a hyphen or colon, white space and a rest follow.\<close>

fun matchTitleDescription :: "string \<Rightarrow> string \<Rightarrow> (string \<times> string) option" where
  "matchTitleDescription acc [] = None"
| "matchTitleDescription acc (c # cs) =
     (case (case dropWhile isSpace (c # cs) of
              [] \<Rightarrow> None
            | s # r \<Rightarrow> if s = CHR ''-'' \<or> s = CHR '':'' then matchSpacedRest 1 r else None) of
        Some d \<Rightarrow> Some (acc, d)
      | None \<Rightarrow> if isLineTerminator c then None else matchTitleDescription (acc @ [c]) cs)"

text \<open>
  \<^verbatim>\<open>
  export const parseTitleDescription = (value: string) => {
    const cleaned = stripMarkdown(value)
    const match = cleaned.match(/^(.+?)\s*(?:-|:)\s+(.+)$/)
    if (match) { return { title: match[1].trim(), description: match[2].trim() } }
    return { title: cleaned, description: '' }
  }
  \<close>
\<close>

definition parseTitleDescription :: "string \<Rightarrow> string \<times> string" where
  "parseTitleDescription v =
     (let cleaned = stripMarkdown v
      in case (case cleaned of
                 [] \<Rightarrow> None
               | c # cs \<Rightarrow> if isLineTerminator c then None else matchTitleDescription [c] cs) of
           Some (t, d) \<Rightarrow> (trim t, trim d)
         | None \<Rightarrow> (cleaned, []))"

text \<open>\<open>value.match(/^\s*\*\*([^*]+)\*\*\s*(.+)$/)\<close>: the bold question and the rest.\<close>

definition matchBoldQuestion :: "string \<Rightarrow> (string \<times> string) option" where
  "matchBoldQuestion v =
     (let t = dropWhile isSpace v;
          q = takeWhile (\<lambda>x. x \<noteq> CHR ''*'') (drop 2 t);
          after = dropWhile (\<lambda>x. x \<noteq> CHR ''*'') (drop 2 t)
      in if prefix ''**'' t \<and> q \<noteq> [] \<and> prefix ''**'' after
         then (case matchSpacedRest 0 (drop 2 after) of Some a \<Rightarrow> Some (q, a) | None \<Rightarrow> None)
         else None)"

text \<open>
  \<^verbatim>\<open>
  export const parseQuestionAnswer = (value: string) => {
    const cleaned = stripMarkdown(value)
    const boldMatch = value.match(/^\s*\*\*([^*]+)\*\*\s*(.+)$/)
    if (boldMatch) {
      return { question: stripMarkdown(boldMatch[1]), answer: stripMarkdown(boldMatch[2]) }
    }
    const idx = cleaned.indexOf('?')
    if (idx !== -1 && idx < cleaned.length - 1) {
      const question = cleaned.slice(0, idx + 1).trim()
      const answer = cleaned.slice(idx + 1).trim()
      if (question && answer) { return { question, answer } }
    }
    return null
  }
  \<close>
\<close>

definition parseQuestionAnswer :: "string \<Rightarrow> SeoFaq option" where
  "parseQuestionAnswer v =
     (let cleaned = stripMarkdown v
      in case matchBoldQuestion v of
           Some (q, a) \<Rightarrow> Some \<lparr>faq_question = stripMarkdown q, faq_answer = stripMarkdown a\<rparr>
         | None \<Rightarrow>
             (let idx = length (takeWhile (\<lambda>c. c \<noteq> CHR ''?'') cleaned)
              in if idx < length cleaned \<and> idx + 1 < length cleaned
                 then (let question = trim (take (idx + 1) cleaned);
                           answer = trim (drop (idx + 1) cleaned)
                       in if question \<noteq> [] \<and> answer \<noteq> []
                          then Some \<lparr>faq_question = question, faq_answer = answer\<rparr> else None)
                 else None))"

text \<open>\<open>extractLinks\<close>: the matches of the link pattern from left to right, each search
  starting where the last match ended.\<close>

function extractLinks :: "string \<Rightarrow> SeoLink list" where
  "extractLinks [] = []"
| "extractLinks (c # cs) =
     (case matchLink (c # cs) of
        Some (l, h, rest) \<Rightarrow> \<lparr>link_label = stripMarkdown l, link_href = trim h\<rparr> # extractLinks rest
      | None \<Rightarrow> extractLinks cs)"
  by pat_completeness auto
termination
proof (relation "measure length", goal_cases)
  case 1
  show ?case by simp
next
  case (2 c cs)
  show ?case by simp
next
  case (3 c cs p l q h rest)
  then have "matchLink (c # cs) = Some (l, h, rest)" by simp
  from matchLink_length [OF this] show ?case by simp
qed

subsection \<open>Sections\<close>

definition isHeadingToken :: "token \<Rightarrow> bool" where
  "isHeadingToken t \<longleftrightarrow> tok_type t = ''heading''"

definition isParagraphToken :: "token \<Rightarrow> bool" where
  "isParagraphToken t \<longleftrightarrow> tok_type t = ''paragraph''"

definition isListToken :: "token \<Rightarrow> bool" where
  "isListToken t \<longleftrightarrow> tok_type t = ''list''"

text \<open>\<open>v ?? ''\<close>.\<close>

definition orEmpty :: "string option \<Rightarrow> string" where
  "orEmpty v = (case v of None \<Rightarrow> [] | Some s \<Rightarrow> s)"

text \<open>
  \<^verbatim>\<open>
  export const buildSectionsFromTokens = (tokens: TokensList) => {
    const sections: MarkdownSection[] = []
    let current: MarkdownSection | null = null
    for (const token of tokens) {
      if (isHeadingToken(token) && token.depth === 2) {
        if (current) { sections.push(current) }
        current = { heading: token.text ?? '', tokens: [], raw: '' }
        continue
      }
      if (current) {
        current.tokens.push(token)
        current.raw += token.raw ?? ''
      }
    }
    if (current) { sections.push(current) }
    return sections
  }
  \<close>
  The loop, with its two variables \<open>sections\<close> and \<open>current\<close> as arguments.
\<close>

definition pushCurrent :: "MarkdownSection list \<Rightarrow> MarkdownSection option \<Rightarrow> MarkdownSection list" where
  "pushCurrent sections current = (case current of None \<Rightarrow> sections | Some c \<Rightarrow> sections @ [c])"

fun sectionsLoop ::
  "token list \<Rightarrow> MarkdownSection list \<Rightarrow> MarkdownSection option \<Rightarrow> MarkdownSection list" where
  "sectionsLoop [] sections current = pushCurrent sections current"
| "sectionsLoop (t # ts) sections current =
     (if isHeadingToken t \<and> tok_depth t = 2
      then sectionsLoop ts (pushCurrent sections current)
             (Some \<lparr>sec_heading = orEmpty (tok_text t), sec_tokens = [], sec_raw = []\<rparr>)
      else (case current of
              None \<Rightarrow> sectionsLoop ts sections None
            | Some c \<Rightarrow>
                sectionsLoop ts sections
                  (Some (c\<lparr>sec_tokens := sec_tokens c @ [t], sec_raw := sec_raw c @ orEmpty (tok_raw t)\<rparr>))))"

definition buildSectionsFromTokens :: "token list \<Rightarrow> MarkdownSection list" where
  "buildSectionsFromTokens tokens = sectionsLoop tokens [] None"

definition extractParagraphText :: "token list \<Rightarrow> string" where
  "extractParagraphText tokens =
     (case filter isParagraphToken tokens of [] \<Rightarrow> [] | t # _ \<Rightarrow> stripMarkdown (orEmpty (tok_text t)))"

definition extractParagraphs :: "token list \<Rightarrow> string list" where
  "extractParagraphs tokens =
     filter (\<lambda>s. s \<noteq> []) (map (\<lambda>t. stripMarkdown (orEmpty (tok_text t))) (filter isParagraphToken tokens))"

definition extractListItems :: "token list \<Rightarrow> string list" where
  "extractListItems tokens =
     concat (map (\<lambda>t. filter (\<lambda>s. s \<noteq> []) (tok_items t)) (filter isListToken tokens))"

definition parseSteps :: "MarkdownSection \<Rightarrow> SeoStep list" where
  "parseSteps section =
     map (\<lambda>(t, d). \<lparr>step_title = t, step_description = d\<rparr>)
       (filter (\<lambda>(t, d). t \<noteq> []) (map parseTitleDescription (extractListItems (sec_tokens section))))"

definition parseTrust :: "MarkdownSection \<Rightarrow> SeoTrust" where
  "parseTrust section =
     \<lparr>trust_title = sec_heading section,
      trust_items =
        map (\<lambda>(t, d). \<lparr>item_title = t, item_description = d\<rparr>)
          (filter (\<lambda>(t, d). t \<noteq> []) (map parseTitleDescription (extractListItems (sec_tokens section))))\<rparr>"

definition parseFaqs :: "MarkdownSection \<Rightarrow> SeoFaq list" where
  "parseFaqs section = List.map_filter parseQuestionAnswer (extractListItems (sec_tokens section))"

definition parseLinks :: "MarkdownSection \<Rightarrow> SeoLink list" where
  "parseLinks section = extractLinks (sec_raw section)"

text \<open>\<open>note.replace(new RegExp(`\\s*${escapeRegExp(label)}\\s*$`), '')\<close>: the escaped label
  matches itself only. \<open>labelTailAt l t\<close>: the pattern matches all of \<open>t\<close>; the first position
  of the note where it does is where the note is cut.\<close>

definition labelTailAt :: "string \<Rightarrow> string \<Rightarrow> bool" where
  "labelTailAt l t \<longleftrightarrow>
     list_ex (\<lambda>j. prefix l (drop j t) \<and> list_all isSpace (drop (j + length l) t))
       [0 ..< Suc (length (takeWhile isSpace t))]"

fun stripLabelTail :: "string \<Rightarrow> string \<Rightarrow> string" where
  "stripLabelTail l [] = []"
| "stripLabelTail l (c # cs) = (if labelTailAt l (c # cs) then [] else c # stripLabelTail l cs)"

text \<open>
  \<^verbatim>\<open>
  export const parseCta = (section: MarkdownSection): SeoCta | null => {
    const links = extractLinks(section.raw)
    if (!links.length) { return null }
    let note = extractParagraphText(section.tokens)
    if (note && links[0]?.label) {
      const labelPattern = new RegExp(`\\s*${escapeRegExp(links[0].label)}\\s*$`)
      note = note.replace(labelPattern, '').trim()
    }
    return { label: links[0].label, href: links[0].href, note: note || undefined }
  }
  \<close>
\<close>

definition parseCta :: "MarkdownSection \<Rightarrow> SeoCta option" where
  "parseCta section =
     (case extractLinks (sec_raw section) of
        [] \<Rightarrow> None
      | l # _ \<Rightarrow>
          (let note0 = extractParagraphText (sec_tokens section);
               note = (if note0 \<noteq> [] \<and> link_label l \<noteq> []
                       then trim (stripLabelTail (link_label l) note0) else note0)
           in Some \<lparr>cta_label = link_label l, cta_href = link_href l, cta_note = nonEmpty note\<rparr>))"

definition parsePricing :: "MarkdownSection \<Rightarrow> SeoPricing option" where
  "parsePricing section =
     (case extractParagraphs (sec_tokens section) of
        [] \<Rightarrow> None
      | [p] \<Rightarrow> Some \<lparr>pricing_headline = ''Pricing'', pricing_detail = p\<rparr>
      | p # q # _ \<Rightarrow> Some \<lparr>pricing_headline = p, pricing_detail = q\<rparr>)"

definition parseFeatureList :: "MarkdownSection \<Rightarrow> string list" where
  "parseFeatureList section = map stripMarkdown (extractListItems (sec_tokens section))"

definition normalizeHeading :: "string \<Rightarrow> string" where
  "normalizeHeading v = toLowerCase (trim v)"

definition defaultSectionHeading :: "string \<Rightarrow> string" where
  "defaultSectionHeading heading = (if heading \<noteq> [] then heading else titleCase heading)"

subsection \<open>Metadata blocks\<close>

text \<open>\<open>trimmed.match(/^([A-Za-z0-9_-]+)\s*:\s*(.*)$/)\<close>: the key and the value of a front
  matter line. The value runs to the end of the line and holds no line terminator.\<close>

definition matchKeyValue :: "string \<Rightarrow> (string \<times> string) option" where
  "matchKeyValue t =
     (let key = takeWhile isTokenChar t
      in if key = [] then None
         else (case dropWhile isSpace (dropWhile isTokenChar t) of
                 [] \<Rightarrow> None
               | c # r \<Rightarrow>
                   if c = CHR '':'' \<and> list_all (\<lambda>x. \<not> isLineTerminator x) (dropWhile isSpace r)
                   then Some (key, dropWhile isSpace r) else None))"

text \<open>\<open>value.slice(1, -1).split(',').map((item) => item.trim()).filter(Boolean)\<close>.\<close>

definition inlineListItems :: "string \<Rightarrow> string list" where
  "inlineListItems v = filter (\<lambda>s. s \<noteq> []) (map trim (splitOn (CHR '','') (butlast (tl v))))"

text \<open>\<open>(meta[currentListKey] as string[]) || []\<close>.\<close>

definition listAt :: "MetaBlock \<Rightarrow> string \<Rightarrow> string list" where
  "listAt meta key = (case map_of meta key of Some (MList l) \<Rightarrow> l | _ \<Rightarrow> [])"

text \<open>
  The loop of \<open>parseFrontMatter\<close> over the lines after the opening \<open>---\<close>, with \<open>meta\<close> and
  \<open>currentListKey\<close> as arguments; it returns the metadata and the lines after the closing
  \<open>---\<close> (none when the block is not closed).
  \<^verbatim>\<open>
  for (; index < lines.length; index += 1) {
    const line = lines[index]
    if (line.trim() === '---') { index += 1; break }
    const trimmed = line.trim()
    if (!trimmed) { currentListKey = null; continue }
    if (currentListKey && trimmed.startsWith('-')) {
      const value = trimmed.replace(/^[-\s]+/, '').trim()
      if (value) {
        const list = (meta[currentListKey] as string[]) || []
        list.push(value)
        meta[currentListKey] = list
      }
      continue
    }
    const match = trimmed.match(/^([A-Za-z0-9_-]+)\s*:\s*(.*)$/)
    if (!match) { continue }
    const key = match[1].trim().toLowerCase()
    let value = match[2].trim()
    if (!value) { currentListKey = key; meta[key] = []; continue }
    if (value.startsWith('[') && value.endsWith(']')) {
      const items = value.slice(1, -1).split(',').map((item) => item.trim()).filter(Boolean)
      meta[key] = items
      currentListKey = null
      continue
    }
    meta[key] = value
    currentListKey = null
  }
  \<close>
\<close>

fun frontMatterLoop :: "string list \<Rightarrow> MetaBlock \<Rightarrow> string option \<Rightarrow> MetaBlock \<times> string list" where
  "frontMatterLoop [] meta currentListKey = (meta, [])"
| "frontMatterLoop (line # rest) meta currentListKey =
     (let trimmed = trim line
      in if trimmed = ''---'' then (meta, rest)
         else if trimmed = [] then frontMatterLoop rest meta None
         else if truthy currentListKey \<and> prefix ''-'' trimmed
         then (let v = trim (dropWhile (\<lambda>c. c = CHR ''-'' \<or> isSpace c) trimmed)
               in if v \<noteq> []
                  then frontMatterLoop rest
                         (AList.update (orEmpty currentListKey)
                            (MList (listAt meta (orEmpty currentListKey) @ [v])) meta)
                         currentListKey
                  else frontMatterLoop rest meta currentListKey)
         else (case matchKeyValue trimmed of
                 None \<Rightarrow> frontMatterLoop rest meta currentListKey
               | Some (k, val) \<Rightarrow>
                   (let key = toLowerCase (trim k); v = trim val
                    in if v = [] then frontMatterLoop rest (AList.update key (MList []) meta) (Some key)
                       else if prefix ''['' v \<and> suffix '']'' v
                       then frontMatterLoop rest (AList.update key (MList (inlineListItems v)) meta) None
                       else frontMatterLoop rest (AList.update key (MStr v) meta) None)))"

text \<open>
  \<^verbatim>\<open>
  export const parseFrontMatter = (markdown: string) => {
    const lines = markdown.split(/\r?\n/)
    let index = 0
    while (index < lines.length && !lines[index].trim()) { index += 1 }
    if (index >= lines.length || lines[index].trim() !== '---') {
      return { meta: {}, body: markdown }
    }
    index += 1
    ...
    const body = lines.slice(index).join('\n')
    return { meta, body }
  }
  \<close>
\<close>

definition parseFrontMatter :: "string \<Rightarrow> MetaBlock \<times> string" where
  "parseFrontMatter markdown =
     (case dropWhile (\<lambda>l. trim l = []) (splitLines markdown) of
        [] \<Rightarrow> ([], markdown)
      | first # rest \<Rightarrow>
          if trim first \<noteq> ''---'' then ([], markdown)
          else (case frontMatterLoop rest [] None of (meta, bodyLines) \<Rightarrow> (meta, joinWith [LF] bodyLines)))"

text \<open>\<open>line.match(/^\s*([A-Za-z0-9_-]+)\s*:\s*(.+)\s*$/)\<close> of \<open>parseMetaBlock\<close>: the key
  (group 1) and the trimmed value (\<open>match[2].trim()\<close>). The text \<open>t\<close> after the colon matches
  \<open>\s*(.+)\s*$\<close> when it is white space, a non-empty group without line terminator, white
  space; whatever the split, the trimmed group is the trimmed \<open>t\<close>. Such a split exists when
  the trimmed \<open>t\<close> has no line terminator and, if it is empty, \<open>t\<close> has a character that is
  no line terminator.\<close>

definition matchMetaLine :: "string \<Rightarrow> (string \<times> string) option" where
  "matchMetaLine line =
     (let l = dropWhile isSpace line; key = takeWhile isTokenChar l
      in if key = [] then None
         else (case dropWhile isSpace (dropWhile isTokenChar l) of
                 [] \<Rightarrow> None
               | c # t \<Rightarrow>
                   if c = CHR '':''
                      \<and> list_all (\<lambda>x. \<not> isLineTerminator x) (trim t)
                      \<and> (trim t \<noteq> [] \<or> list_ex (\<lambda>x. \<not> isLineTerminator x) t)
                   then Some (key, trim t) else None))"

text \<open>
  The loop of \<open>parseMetaBlock\<close> over the lines after the \<open>[meta]\<close> line; it returns the
  metadata and the lines from \<open>bodyStart\<close> on.
  \<^verbatim>\<open>
  let bodyStart = index
  for (; index < lines.length; index += 1) {
    const line = lines[index]
    if (!line.trim()) { bodyStart = index + 1; break }
    const match = line.match(/^\s*([A-Za-z0-9_-]+)\s*:\s*(.+)\s*$/)
    if (!match) { bodyStart = index; break }
    meta[match[1].trim().toLowerCase()] = match[2].trim()
    bodyStart = index + 1
  }
  \<close>
\<close>

fun metaBlockLoop :: "string list \<Rightarrow> MetaBlock \<Rightarrow> MetaBlock \<times> string list" where
  "metaBlockLoop [] meta = (meta, [])"
| "metaBlockLoop (line # rest) meta =
     (if trim line = [] then (meta, rest)
      else (case matchMetaLine line of
              None \<Rightarrow> (meta, line # rest)
            | Some (k, v) \<Rightarrow> metaBlockLoop rest (AList.update (toLowerCase (trim k)) (MStr v) meta)))"

definition parseMetaBlock :: "string \<Rightarrow> MetaBlock \<times> string" where
  "parseMetaBlock markdown =
     (case dropWhile (\<lambda>l. trim l = []) (splitLines markdown) of
        [] \<Rightarrow> ([], markdown)
      | first # rest \<Rightarrow>
          if toLowerCase (trim first) \<noteq> ''[meta]'' then ([], markdown)
          else (case metaBlockLoop rest [] of (meta, bodyLines) \<Rightarrow> (meta, joinWith [LF] bodyLines)))"

text \<open>\<open>normalizeMeta\<close>: the entries again, under their trimmed lower-case keys. (The
  parsers' keys are lower-case words already, so that the order \<open>Object.entries\<close> visits
  them in does not show in the result.)\<close>

definition normalizeMeta :: "MetaBlock \<Rightarrow> MetaBlock" where
  "normalizeMeta meta = fold (\<lambda>(key, v) normalized. AList.update (toLowerCase (trim key)) v normalized) meta []"

subsection \<open>Title, heading and description\<close>

text \<open>
  \<^verbatim>\<open>
  export const parseTokensForSummary = (body: string) => {
    const tokens = marked.lexer(body)
    let title = ''; let heading = ''; let description = ''; let seenH1 = false
    for (const token of tokens) {
      if (token.type === 'heading' && token.depth === 1) {
        if (!title) { title = stripMarkdown(token.text ?? ''); heading = title; seenH1 = true }
        continue
      }
      if (seenH1 && !description && token.type === 'paragraph') {
        description = stripMarkdown(token.text ?? '')
      }
    }
    return { tokens, title, heading, description }
  }
  \<close>
  The state of the loop is \<open>(title, heading, description, seenH1)\<close>.
\<close>

record summary =
  sum_title :: string
  sum_heading :: string
  sum_description :: string
  sum_seenH1 :: bool

definition summaryStep :: "token \<Rightarrow> summary \<Rightarrow> summary" where
  "summaryStep t s =
     (if tok_type t = ''heading'' \<and> tok_depth t = 1
      then (if sum_title s = []
            then s\<lparr>sum_title := stripMarkdown (orEmpty (tok_text t)),
                   sum_heading := stripMarkdown (orEmpty (tok_text t)),
                   sum_seenH1 := True\<rparr>
            else s)
      else if sum_seenH1 s \<and> sum_description s = [] \<and> tok_type t = ''paragraph''
      then s\<lparr>sum_description := stripMarkdown (orEmpty (tok_text t))\<rparr>
      else s)"

definition summaryOfTokens :: "token list \<Rightarrow> summary" where
  "summaryOfTokens tokens =
     fold summaryStep tokens \<lparr>sum_title = [], sum_heading = [], sum_description = [], sum_seenH1 = False\<rparr>"

definition parseTokensForSummary :: "(string \<Rightarrow> token list) \<Rightarrow> string \<Rightarrow> token list \<times> summary" where
  "parseTokensForSummary lexer body = (lexer body, summaryOfTokens (lexer body))"

section \<open>The page parsers (markdown/parser.ts, markdown/marketing_parser.ts)\<close>

text \<open>What a throw of the program carries: a \<open>TypeError\<close> of the runtime, or the message of
  a \<open>new Error(message)\<close>.\<close>

datatype error = TypeError | Error string

record ParsedMarkdown =
  pm_meta :: MetaBlock
  pm_body :: string
  pm_title :: string
  pm_heading :: string
  pm_description :: string
  pm_seoTitle :: "string option"
  pm_seoDescription :: "string option"
  pm_steps :: "SeoStep list option"
  pm_pricing :: "SeoPricing option"
  pm_trust :: "SeoTrust option"
  pm_faqs :: "SeoFaq list option"
  pm_cta :: "SeoCta option"
  pm_relatedLinks :: "SeoLink list option"
  pm_resourceLinks :: "SeoLink list option"
  pm_featureList :: "string list option"
  pm_extraSections :: "SeoSection list option"

text \<open>The variables that the loop over the sections assigns.\<close>

record sectionState =
  st_extraSections :: "SeoSection list"
  st_steps :: "SeoStep list option"
  st_pricing :: "SeoPricing option"
  st_trust :: "SeoTrust option"
  st_faqs :: "SeoFaq list option"
  st_cta :: "SeoCta option"
  st_relatedLinks :: "SeoLink list option"
  st_resourceLinks :: "SeoLink list option"
  st_featureList :: "string list option"

definition initialSectionState :: sectionState where
  "initialSectionState =
     \<lparr>st_extraSections = [], st_steps = None, st_pricing = None, st_trust = None, st_faqs = None,
      st_cta = None, st_relatedLinks = None, st_resourceLinks = None, st_featureList = None\<rparr>"

definition STEPS_HEADINGS :: "string list" where
  "STEPS_HEADINGS = [''how it works'', ''step-by-step'', ''step by step'', ''steps'']"

definition TRUST_HEADINGS :: "string list" where
  "TRUST_HEADINGS = [''trust'', ''what happens to your document'']"

definition RELATED_HEADINGS :: "string list" where
  "RELATED_HEADINGS = [''related'', ''related use cases'', ''related links'']"

definition CTA_HEADINGS :: "string list" where
  "CTA_HEADINGS = [''ready to send it?'', ''ready to send'', ''next step'', ''next steps'', ''cta'']"

text \<open>
  The body of \<open>for (const section of sections)\<close>. The two parsers hold the same loop, but
  for the FAQ headings, the feature-list headings and the heading of an extra section
  (\<open>defaultSectionHeading(section.heading)\<close> in parser.ts, \<open>section.heading\<close> in
  marketing_parser.ts): these are the arguments \<open>faqHeadings\<close>, \<open>featureHeadings\<close> and
  \<open>headingOf\<close>.
  \<^verbatim>\<open>
  const normalized = normalizeHeading(section.heading)
  if (['how it works', 'step-by-step', 'step by step', 'steps'].includes(normalized)) {
    steps = parseSteps(section); continue }
  if (['pricing'].includes(normalized)) {
    const parsed = parsePricing(section); if (parsed) pricing = parsed; continue }
  if (['trust', 'what happens to your document'].includes(normalized)) {
    trust = parseTrust(section); continue }
  if ([...faq headings...].includes(normalized)) { faqs = parseFaqs(section); continue }
  if (['resources'].includes(normalized)) { resourceLinks = parseLinks(section); continue }
  if (['related', 'related use cases', 'related links'].includes(normalized)) {
    relatedLinks = parseLinks(section); continue }
  if ([...feature headings...].includes(normalized)) {
    featureList = parseFeatureList(section); continue }
  if (['ready to send it?', 'ready to send', 'next step', 'next steps', 'cta'].includes(normalized)) {
    const parsed = parseCta(section); if (parsed) cta = parsed; continue }
  if (section.raw.trim()) {
    extraSections.push({ heading: ..., markdown: section.raw.trim() }) }
  \<close>
\<close>

definition sectionStep ::
  "string list \<Rightarrow> string list \<Rightarrow> (string \<Rightarrow> string) \<Rightarrow> MarkdownSection \<Rightarrow> sectionState \<Rightarrow> sectionState" where
  "sectionStep faqHeadings featureHeadings headingOf section st =
     (let normalized = normalizeHeading (sec_heading section)
      in if normalized \<in> set STEPS_HEADINGS then st\<lparr>st_steps := Some (parseSteps section)\<rparr>
         else if normalized \<in> set [''pricing'']
         then (case parsePricing section of None \<Rightarrow> st | Some parsed \<Rightarrow> st\<lparr>st_pricing := Some parsed\<rparr>)
         else if normalized \<in> set TRUST_HEADINGS then st\<lparr>st_trust := Some (parseTrust section)\<rparr>
         else if normalized \<in> set faqHeadings then st\<lparr>st_faqs := Some (parseFaqs section)\<rparr>
         else if normalized \<in> set [''resources''] then st\<lparr>st_resourceLinks := Some (parseLinks section)\<rparr>
         else if normalized \<in> set RELATED_HEADINGS then st\<lparr>st_relatedLinks := Some (parseLinks section)\<rparr>
         else if normalized \<in> set featureHeadings
         then st\<lparr>st_featureList := Some (parseFeatureList section)\<rparr>
         else if normalized \<in> set CTA_HEADINGS
         then (case parseCta section of None \<Rightarrow> st | Some parsed \<Rightarrow> st\<lparr>st_cta := Some parsed\<rparr>)
         else if trim (sec_raw section) \<noteq> []
         then st\<lparr>st_extraSections := st_extraSections st
                  @ [\<lparr>section_heading = headingOf (sec_heading section),
                      section_markdown = trim (sec_raw section)\<rparr>]\<rparr>
         else st)"

definition classifySections ::
  "string list \<Rightarrow> string list \<Rightarrow> (string \<Rightarrow> string) \<Rightarrow> MarkdownSection list \<Rightarrow> sectionState" where
  "classifySections faqHeadings featureHeadings headingOf sections =
     fold (sectionStep faqHeadings featureHeadings headingOf) sections initialSectionState"

text \<open>\<open>extraSections.length ? extraSections : undefined\<close>.\<close>

definition nonEmptyList :: "'a list \<Rightarrow> 'a list option" where
  "nonEmptyList xs = (if xs = [] then None else Some xs)"

subsection \<open>parseMarkdownContent\<close>

text \<open>\<open>typeof meta[key] === 'string' ? stripMarkdown(meta[key]) : ''\<close>.\<close>

definition metaStripped :: "MetaBlock \<Rightarrow> string \<Rightarrow> string" where
  "metaStripped meta key = (case map_of meta key of Some (MStr s) \<Rightarrow> stripMarkdown s | _ \<Rightarrow> [])"

text \<open>A metadata value is truthy unless it is absent or the empty string (an array, also
  the empty one, is truthy).\<close>

definition metaTruthy :: "meta_value option \<Rightarrow> bool" where
  "metaTruthy v = (case v of None \<Rightarrow> False | Some (MStr s) \<Rightarrow> s \<noteq> [] | Some (MList l) \<Rightarrow> True)"

text \<open>
  \<open>const rawSeoTitle = (meta.seotitle as string) || (meta['seo-title'] as string)\<close> and
  \<open>const metaSeoTitle = rawSeoTitle ? stripMarkdown(rawSeoTitle) : ''\<close>: on an array (a key
  of the front matter with an empty value or an inline list) \<open>stripMarkdown\<close> calls
  \<open>replace\<close> on what is no string, and the runtime throws a \<open>TypeError\<close>.
\<close>

definition contentSeoTitle :: "MetaBlock \<Rightarrow> error + string" where
  "contentSeoTitle meta =
     (case (if metaTruthy (map_of meta ''seotitle'') then map_of meta ''seotitle''
            else map_of meta ''seo-title'') of
        None \<Rightarrow> Inr []
      | Some (MStr s) \<Rightarrow> Inr (if s \<noteq> [] then stripMarkdown s else [])
      | Some (MList l) \<Rightarrow> Inl TypeError)"

text \<open>\<open>a || b\<close> on strings.\<close>

definition orStr :: "string \<Rightarrow> string \<Rightarrow> string" where
  "orStr a b = (if a \<noteq> [] then a else b)"

text \<open>
  \<^verbatim>\<open>
  export const parseMarkdownContent = (markdown: string): ParsedMarkdown => {
    const frontMatter = parseFrontMatter(markdown)
    const metaSource = frontMatter.meta && Object.keys(frontMatter.meta).length
      ? frontMatter : parseMetaBlock(markdown)
    const meta = normalizeMeta(metaSource.meta)
    const body = metaSource.body
    const { tokens, title, heading, description } = parseTokensForSummary(body)
    const sections = buildSectionsFromTokens(tokens)
    ... the loop over the sections ...
    const rawSeoTitle = (meta.seotitle as string) || (meta['seo-title'] as string)
    const metaTitle = typeof meta.title === 'string' ? stripMarkdown(meta.title) : ''
    const metaHeading = typeof meta.heading === 'string' ? stripMarkdown(meta.heading) : ''
    const metaDescription = typeof meta.description === 'string' ? stripMarkdown(meta.description) : ''
    const metaSeoTitle = rawSeoTitle ? stripMarkdown(rawSeoTitle) : ''
    const metaCtaLabel = typeof meta['cta-label'] === 'string' ? stripMarkdown(meta['cta-label']) : ''
    const metaCtaHref = typeof meta['cta-href'] === 'string' ? String(meta['cta-href']).trim() : ''
    const metaCtaNote = typeof meta['cta-note'] === 'string' ? stripMarkdown(meta['cta-note']) : ''
    if (!cta && metaCtaLabel && metaCtaHref) {
      cta = { label: metaCtaLabel, href: metaCtaHref, note: metaCtaNote || undefined }
    }
    return {
      meta, body,
      title: metaTitle || title,
      heading: metaHeading || heading || metaTitle || title,
      description: metaDescription || description,
      seoTitle: metaSeoTitle || undefined,
      seoDescription: typeof meta['seo-description'] === 'string'
        ? stripMarkdown(meta['seo-description']) : undefined,
      steps, pricing, trust, faqs, cta, relatedLinks, resourceLinks, featureList,
      extraSections: extraSections.length ? extraSections : undefined,
    }
  }
  \<close>
\<close>

definition CONTENT_FAQ_HEADINGS :: "string list" where
  "CONTENT_FAQ_HEADINGS = [''faqs'', ''faq'', ''pricing faqs'', ''delivery faqs'']"

definition CONTENT_FEATURE_HEADINGS :: "string list" where
  "CONTENT_FEATURE_HEADINGS =
     [''features'', ''feature list'', ''feature-list'', ''what is included'', ''what you get'']"

definition contentMetaSource :: "string \<Rightarrow> MetaBlock \<times> string" where
  "contentMetaSource markdown =
     (if fst (parseFrontMatter markdown) \<noteq> [] then parseFrontMatter markdown else parseMetaBlock markdown)"

definition parseMarkdownContent :: "(string \<Rightarrow> token list) \<Rightarrow> string \<Rightarrow> error + ParsedMarkdown" where
  "parseMarkdownContent lexer markdown =
     (let meta = normalizeMeta (fst (contentMetaSource markdown));
          body = snd (contentMetaSource markdown);
          tokens = fst (parseTokensForSummary lexer body);
          summ = snd (parseTokensForSummary lexer body);
          st = classifySections CONTENT_FAQ_HEADINGS CONTENT_FEATURE_HEADINGS defaultSectionHeading
                 (buildSectionsFromTokens tokens);
          metaTitle = metaStripped meta ''title'';
          metaHeading = metaStripped meta ''heading'';
          metaDescription = metaStripped meta ''description'';
          metaCtaLabel = metaStripped meta ''cta-label'';
          metaCtaHref = (case map_of meta ''cta-href'' of Some (MStr s) \<Rightarrow> trim s | _ \<Rightarrow> []);
          metaCtaNote = metaStripped meta ''cta-note'';
          cta = (if st_cta st = None \<and> metaCtaLabel \<noteq> [] \<and> metaCtaHref \<noteq> []
                 then Some \<lparr>cta_label = metaCtaLabel, cta_href = metaCtaHref, cta_note = nonEmpty metaCtaNote\<rparr>
                 else st_cta st)
      in case contentSeoTitle meta of
           Inl e \<Rightarrow> Inl e
         | Inr metaSeoTitle \<Rightarrow>
             Inr \<lparr>pm_meta = meta, pm_body = body,
                  pm_title = orStr metaTitle (sum_title summ),
                  pm_heading = orStr metaHeading (orStr (sum_heading summ) (orStr metaTitle (sum_title summ))),
                  pm_description = orStr metaDescription (sum_description summ),
                  pm_seoTitle = nonEmpty metaSeoTitle,
                  pm_seoDescription =
                    (case map_of meta ''seo-description'' of Some (MStr s) \<Rightarrow> Some (stripMarkdown s) | _ \<Rightarrow> None),
                  pm_steps = st_steps st, pm_pricing = st_pricing st, pm_trust = st_trust st,
                  pm_faqs = st_faqs st, pm_cta = cta, pm_relatedLinks = st_relatedLinks st,
                  pm_resourceLinks = st_resourceLinks st, pm_featureList = st_featureList st,
                  pm_extraSections = nonEmptyList (st_extraSections st)\<rparr>)"

subsection \<open>parseMarketingMarkdown\<close>

text \<open>\<open>String(v)\<close> of a metadata value: an array prints its items with commas between.\<close>

definition metaText :: "meta_value \<Rightarrow> string" where
  "metaText v = (case v of MStr s \<Rightarrow> s | MList l \<Rightarrow> joinWith '','' l)"

text \<open>\<open>meta[key] ? stripMarkdown(String(meta[key])) : ''\<close>.\<close>

definition marketingStripped :: "MetaBlock \<Rightarrow> string \<Rightarrow> string" where
  "marketingStripped meta key =
     (case map_of meta key of
        None \<Rightarrow> []
      | Some v \<Rightarrow> if metaTruthy (Some v) then stripMarkdown (metaText v) else [])"

text \<open>
  \<^verbatim>\<open>
  export const parseMarketingMarkdown = (markdown: string): ParsedMarketingMarkdown => {
    const metaSource = parseMetaBlock(markdown)
    const meta = normalizeMeta(metaSource.meta)
    const body = metaSource.body
    const { tokens, title, heading, description } = parseTokensForSummary(body)
    const sections = buildSectionsFromTokens(tokens)
    ... the loop over the sections ...
    const metaTitle = meta.title ? stripMarkdown(String(meta.title)) : ''
    const metaHeading = meta.heading ? stripMarkdown(String(meta.heading)) : ''
    const metaDescription = meta.description ? stripMarkdown(String(meta.description)) : ''
    const rawSeoTitle = meta.seotitle || meta['seo-title']
    const metaSeoTitle = rawSeoTitle ? stripMarkdown(String(rawSeoTitle)) : ''
    const metaCtaLabel = meta['cta-label'] ? stripMarkdown(String(meta['cta-label'])) : ''
    const metaCtaHref = meta['cta-href'] ? String(meta['cta-href']).trim() : ''
    const metaCtaNote = meta['cta-note'] ? stripMarkdown(String(meta['cta-note'])) : ''
    if (!cta && metaCtaLabel && metaCtaHref) {
      cta = { label: metaCtaLabel, href: metaCtaHref, note: metaCtaNote || undefined }
    }
    return { ... as parseMarkdownContent ...,
      seoDescription: meta['seo-description'] ? stripMarkdown(String(meta['seo-description'])) : undefined,
      ... }
  }
  \<close>
\<close>

definition MARKETING_FAQ_HEADINGS :: "string list" where
  "MARKETING_FAQ_HEADINGS = [''faqs'', ''faq'']"

definition MARKETING_FEATURE_HEADINGS :: "string list" where
  "MARKETING_FEATURE_HEADINGS = [''features'', ''feature list'', ''feature-list'']"

definition parseMarketingMarkdown :: "(string \<Rightarrow> token list) \<Rightarrow> string \<Rightarrow> ParsedMarkdown" where
  "parseMarketingMarkdown lexer markdown =
     (let meta = normalizeMeta (fst (parseMetaBlock markdown));
          body = snd (parseMetaBlock markdown);
          tokens = fst (parseTokensForSummary lexer body);
          summ = snd (parseTokensForSummary lexer body);
          st = classifySections MARKETING_FAQ_HEADINGS MARKETING_FEATURE_HEADINGS (\<lambda>heading. heading)
                 (buildSectionsFromTokens tokens);
          metaTitle = marketingStripped meta ''title'';
          metaHeading = marketingStripped meta ''heading'';
          metaDescription = marketingStripped meta ''description'';
          rawSeoTitle = (if metaTruthy (map_of meta ''seotitle'') then map_of meta ''seotitle''
                         else map_of meta ''seo-title'');
          metaSeoTitle = (case rawSeoTitle of
                            None \<Rightarrow> []
                          | Some v \<Rightarrow> if metaTruthy (Some v) then stripMarkdown (metaText v) else []);
          metaCtaLabel = marketingStripped meta ''cta-label'';
          metaCtaHref = (case map_of meta ''cta-href'' of
                           None \<Rightarrow> []
                         | Some v \<Rightarrow> if metaTruthy (Some v) then trim (metaText v) else []);
          metaCtaNote = marketingStripped meta ''cta-note'';
          cta = (if st_cta st = None \<and> metaCtaLabel \<noteq> [] \<and> metaCtaHref \<noteq> []
                 then Some \<lparr>cta_label = metaCtaLabel, cta_href = metaCtaHref, cta_note = nonEmpty metaCtaNote\<rparr>
                 else st_cta st)
      in \<lparr>pm_meta = meta, pm_body = body,
          pm_title = orStr metaTitle (sum_title summ),
          pm_heading = orStr metaHeading (orStr (sum_heading summ) (orStr metaTitle (sum_title summ))),
          pm_description = orStr metaDescription (sum_description summ),
          pm_seoTitle = nonEmpty metaSeoTitle,
          pm_seoDescription =
            (case map_of meta ''seo-description'' of
               None \<Rightarrow> None
             | Some v \<Rightarrow> if metaTruthy (Some v) then Some (stripMarkdown (metaText v)) else None),
          pm_steps = st_steps st, pm_pricing = st_pricing st, pm_trust = st_trust st,
          pm_faqs = st_faqs st, pm_cta = cta, pm_relatedLinks = st_relatedLinks st,
          pm_resourceLinks = st_resourceLinks st, pm_featureList = st_featureList st,
          pm_extraSections = nonEmptyList (st_extraSections st)\<rparr>)"

section \<open>The markdown renderer (markdown/renderer.ts)\<close>

definition buildFrontMatterLine :: "string \<Rightarrow> string \<Rightarrow> string" where
  "buildFrontMatterLine key v = key @ '': '' @ v"

definition formatList :: "string list \<Rightarrow> string" where
  "formatList items = joinWith [LF] (map (\<lambda>item. ''- '' @ item) items)"

definition formatLinks :: "SeoLink list \<Rightarrow> string" where
  "formatLinks items =
     joinWith [LF] (map (\<lambda>item. ''- ['' @ link_label item @ '']('' @ link_href item @ '')'') items)"

text \<open>
  \<^verbatim>\<open>
  const escapeFrontMatterValue = (value: string) => {
    if (!value) return '""'
    if (/[:\n]/.test(value)) { return `"${value.replace(/"/g, '\\"')}"` }
    return value
  }
  \<close>
\<close>

definition escapeFrontMatterValue :: "string \<Rightarrow> string" where
  "escapeFrontMatterValue v =
     (if v = [] then [CHR 0x22, CHR 0x22]
      else if CHR '':'' \<in> set v \<or> LF \<in> set v
      then [CHR 0x22] @ concat (map (\<lambda>c. if c = CHR 0x22 then [CHR 0x5C, CHR 0x22] else [c]) v) @ [CHR 0x22]
      else v)"

text \<open>The lines of \<open>buildFrontMatter\<close>, one conditional \<open>lines.push\<close> after the other.\<close>

definition optLine :: "string \<Rightarrow> string option \<Rightarrow> (string \<Rightarrow> string) \<Rightarrow> string list" where
  "optLine key v f = (if truthy v then [buildFrontMatterLine key (f (orEmpty v))] else [])"

definition boolLine :: "string \<Rightarrow> bool option \<Rightarrow> string list" where
  "boolLine key v =
     (case v of None \<Rightarrow> [] | Some b \<Rightarrow> [buildFrontMatterLine key (if b then ''true'' else ''false'')])"

definition frontMatterLines :: "SeoPageContent \<Rightarrow> string list" where
  "frontMatterLines content =
     [buildFrontMatterLine ''title'' (escapeFrontMatterValue (pc_title content))]
     @ optLine ''description'' (pc_description content) escapeFrontMatterValue
     @ optLine ''seotitle'' (pc_seoTitle content) escapeFrontMatterValue
     @ optLine ''seo-description'' (pc_seoDescription content) escapeFrontMatterValue
     @ [buildFrontMatterLine ''group'' (groupName (pc_group content))]
     @ boolLine ''indexable'' (Some (pc_indexable content))
     @ boolLine ''llms'' (pc_llms content)
     @ boolLine ''nav'' (pc_nav content)
     @ (case pc_navOrder content of None \<Rightarrow> [] | Some n \<Rightarrow> [buildFrontMatterLine ''nav-order'' (showInt n)])
     @ (case pc_schemaType content of None \<Rightarrow> [] | Some t \<Rightarrow> [buildFrontMatterLine ''schema'' (schemaName t)])
     @ optLine ''og-type'' (pc_ogType content) (\<lambda>v. v)
     @ optLine ''og-image'' (pc_ogImage content) escapeFrontMatterValue
     @ optLine ''eyebrow'' (pc_eyebrow content) escapeFrontMatterValue
     @ optLine ''published'' (pc_publishedAt content) (\<lambda>v. v)
     @ optLine ''updated'' (pc_updatedAt content) (\<lambda>v. v)
     @ (case pc_tags content of
          None \<Rightarrow> []
        | Some tags \<Rightarrow>
            if tags = [] then []
            else ''tags:'' # map (\<lambda>tag. ''  - '' @ escapeFrontMatterValue tag) tags)
     @ (if pc_path content \<noteq> []
        then [buildFrontMatterLine ''path'' (escapeFrontMatterValue (pc_path content))] else [])"

text \<open>\<open>if (!lines.length) return ''; return ['---', ...lines, '---', ''].join('\n')\<close>.\<close>

definition buildFrontMatter :: "SeoPageContent \<Rightarrow> string" where
  "buildFrontMatter content =
     (if frontMatterLines content = [] then []
      else joinWith [LF] ([''---''] @ frontMatterLines content @ [''---'', []]))"

text \<open>
  \<^verbatim>\<open>
  const buildSection = (heading: string, markdown: string) => {
    if (!markdown.trim()) return ''
    return `## ${heading}\n${markdown.trim()}\n`
  }
  \<close>
\<close>

definition buildSection :: "string \<Rightarrow> string \<Rightarrow> string" where
  "buildSection heading markdown =
     (if trim markdown = [] then [] else ''## '' @ heading @ [LF] @ trim markdown @ [LF])"

definition buildFeatureList :: "string list \<Rightarrow> string" where
  "buildFeatureList items = (if items = [] then [] else buildSection ''Feature list'' (formatList items))"

definition buildFaqs :: "SeoFaq list \<Rightarrow> string" where
  "buildFaqs faqs =
     (if faqs = [] then []
      else buildSection ''FAQs''
             (joinWith [LF] (map (\<lambda>faq. ''- **'' @ faq_question faq @ ''** '' @ faq_answer faq) faqs)))"

text \<open>\<open>steps.map((step, index) => `${index + 1}. **${step.title}** - ${step.description}`)\<close>.\<close>

definition buildSteps :: "SeoStep list \<Rightarrow> string" where
  "buildSteps steps =
     (if steps = [] then []
      else buildSection ''How it works''
             (joinWith [LF]
                (map (\<lambda>(index, step). showNat (index + 1) @ ''. **'' @ step_title step @ ''** - ''
                                        @ step_description step)
                   (enumerate 0 steps))))"

text \<open>\<open>[pricing.headline, pricing.detail].filter(Boolean).join('\n\n')\<close>.\<close>

definition buildPricing :: "SeoPricing \<Rightarrow> string" where
  "buildPricing pricing =
     buildSection ''Pricing''
       (joinWith [LF, LF] (filter (\<lambda>s. s \<noteq> []) [pricing_headline pricing, pricing_detail pricing]))"

definition buildTrust :: "SeoTrust \<Rightarrow> string" where
  "buildTrust trust =
     (if trust_items trust = [] then []
      else buildSection (trust_title trust)
             (joinWith [LF]
                (map (\<lambda>item. ''- **'' @ item_title item @ ''** - '' @ item_description item)
                   (trust_items trust))))"

definition buildSections :: "SeoSection list \<Rightarrow> string" where
  "buildSections sections =
     joinWith [LF] (map (\<lambda>section. buildSection (section_heading section) (section_markdown section)) sections)"

definition buildLinkSection :: "string \<Rightarrow> SeoLink list option \<Rightarrow> string" where
  "buildLinkSection heading links =
     (case links of
        None \<Rightarrow> []
      | Some ls \<Rightarrow> if ls = [] then [] else buildSection heading (formatLinks ls))"

definition buildCta :: "SeoCta option \<Rightarrow> string" where
  "buildCta cta =
     (case cta of
        None \<Rightarrow> []
      | Some c \<Rightarrow>
          buildSection ''Ready to send it?''
            ((if truthy (cta_note c) then orEmpty (cta_note c) @ [LF, LF] else [])
             @ ''['' @ cta_label c @ '']('' @ cta_href c @ '')''))"

text \<open>\<open>list?.length\<close>: the list is present and not empty.\<close>

definition hasItems :: "'a list option \<Rightarrow> bool" where
  "hasItems v = (case v of None \<Rightarrow> False | Some xs \<Rightarrow> xs \<noteq> [])"

definition itemsOf :: "'a list option \<Rightarrow> 'a list" where
  "itemsOf v = (case v of None \<Rightarrow> [] | Some xs \<Rightarrow> xs)"

text \<open>
  \<^verbatim>\<open>
  export const renderSeoMarkdown = (content: SeoPageContent) => {
    const frontMatter = buildFrontMatter(content)
    const blocks: string[] = []
    blocks.push(`# ${content.title}`)
    if (content.description) { blocks.push(content.description) }
    if (content.steps?.length) { blocks.push(buildSteps(content.steps)) }
    if (content.featureList?.length) { blocks.push(buildFeatureList(content.featureList)) }
    if (content.pricing) { blocks.push(buildPricing(content.pricing)) }
    if (content.trust) { blocks.push(buildTrust(content.trust)) }
    if (content.sections?.length) { blocks.push(buildSections(content.sections)) }
    if (content.faqs?.length) { blocks.push(buildFaqs(content.faqs)) }
    if (content.resourceLinks?.length) { blocks.push(buildLinkSection('Resources', content.resourceLinks)) }
    if (content.relatedLinks?.length) { blocks.push(buildLinkSection('Related', content.relatedLinks)) }
    if (content.cta) { blocks.push(buildCta(content.cta)) }
    const body = blocks.filter(Boolean).join('\n\n').trim()
    return `${frontMatter}${body}\n`
  }
  \<close>
\<close>

definition renderBlocks :: "SeoPageContent \<Rightarrow> string list" where
  "renderBlocks content =
     [''# '' @ pc_title content]
     @ (if truthy (pc_description content) then [orEmpty (pc_description content)] else [])
     @ (if hasItems (pc_steps content) then [buildSteps (itemsOf (pc_steps content))] else [])
     @ (if hasItems (pc_featureList content) then [buildFeatureList (itemsOf (pc_featureList content))] else [])
     @ (case pc_pricing content of None \<Rightarrow> [] | Some p \<Rightarrow> [buildPricing p])
     @ (case pc_trust content of None \<Rightarrow> [] | Some t \<Rightarrow> [buildTrust t])
     @ (if hasItems (pc_sections content) then [buildSections (itemsOf (pc_sections content))] else [])
     @ (if hasItems (pc_faqs content) then [buildFaqs (itemsOf (pc_faqs content))] else [])
     @ (if hasItems (pc_resourceLinks content)
        then [buildLinkSection ''Resources'' (pc_resourceLinks content)] else [])
     @ (if hasItems (pc_relatedLinks content)
        then [buildLinkSection ''Related'' (pc_relatedLinks content)] else [])
     @ (case pc_cta content of None \<Rightarrow> [] | Some c \<Rightarrow> [buildCta (Some c)])"

definition renderSeoMarkdown :: "SeoPageContent \<Rightarrow> string" where
  "renderSeoMarkdown content =
     buildFrontMatter content
     @ trim (joinWith [LF, LF] (filter (\<lambda>b. b \<noteq> []) (renderBlocks content)))
     @ [LF]"

section \<open>Markdown delivery (markdown/delivery.ts)\<close>

text \<open>The part of the resolved configuration that the delivery reads
  (\<open>config.markdown\<close>), the request (its \<open>url\<close>, \<open>headers.accept\<close> and \<open>query.format\<close>), and
  the response.\<close>

record MarkdownConfig =
  enableAcceptNegotiation :: bool
  enableQueryParam :: bool
  extension :: string

record MarkdownRequest =
  req_url :: string
  req_accept :: "string option"
  req_format :: "string option"

record MarkdownResponse =
  res_status :: nat
  res_headers :: "(string \<times> string) list"
  res_body :: string

text \<open>
  \<^verbatim>\<open>
  const stripMarkdownExtension = (value: string, extension: string) => {
    if (!value.endsWith(extension)) return value
    const stripped = value.slice(0, -extension.length)
    if (!stripped || stripped === '/index') return '/'
    return stripped
  }
  \<close>
  \<open>value.slice(0, -n)\<close> drops the last \<open>n\<close> characters; \<open>value.slice(0, -0)\<close> is empty.
\<close>

definition stripMarkdownExtension :: "string \<Rightarrow> string \<Rightarrow> string" where
  "stripMarkdownExtension v ext =
     (if \<not> suffix ext v then v
      else (let stripped = (if ext = [] then [] else take (length v - length ext) v)
            in if stripped = [] \<or> stripped = ''/index'' then ''/'' else stripped))"

definition isMarkdownAccept :: "string option \<Rightarrow> bool" where
  "isMarkdownAccept accept =
     (if \<not> truthy accept then False
      else list_ex (\<lambda>entry. prefix ''text/markdown'' (trim entry)) (splitOn (CHR '','') (orEmpty accept)))"

definition isMarkdownRequest :: "MarkdownConfig \<Rightarrow> MarkdownRequest \<Rightarrow> bool" where
  "isMarkdownRequest config request =
     (if suffix (extension config) (normalizePath (req_url request)) then True
      else if enableAcceptNegotiation config \<and> isMarkdownAccept (req_accept request) then True
      else if enableQueryParam config \<and> req_format request = Some ''md'' then True
      else False)"

text \<open>
  \<^verbatim>\<open>
  export const maybeRenderMarkdown = (config, request, options) => {
    const requestPath = normalizePath(request.url)
    const isMd = requestPath.endsWith(config.markdown.extension)
    ...
    const targetPath = isMd ? stripMarkdownExtension(requestPath, config.markdown.extension) : requestPath
    if (!isMarkdownRequest(config, request)) { return null }
    if (!options.isIndexable(targetPath)) { return null }
    const content = options.resolveContent(targetPath)
    if (!content) { return null }
    const markdownPath = content.markdownPath || buildMarkdownPath(content.path)
    const markdown = renderSeoMarkdown({ ...content, markdownPath })
    const response: MarkdownResponse = {
      status: 200,
      headers: { 'Content-Type': 'text/markdown; charset=utf-8', Vary: 'Accept' },
      body: markdown,
    }
    return response
  }
  \<close>
\<close>

definition maybeRenderMarkdown ::
  "MarkdownConfig \<Rightarrow> MarkdownRequest \<Rightarrow> (string \<Rightarrow> bool) \<Rightarrow> (string \<Rightarrow> SeoPageContent option)
     \<Rightarrow> MarkdownResponse option" where
  "maybeRenderMarkdown config request isIndexable resolveContent =
     (let requestPath = normalizePath (req_url request);
          isMd = suffix (extension config) requestPath;
          targetPath = (if isMd then stripMarkdownExtension requestPath (extension config) else requestPath)
      in if \<not> isMarkdownRequest config request then None
         else if \<not> isIndexable targetPath then None
         else (case resolveContent targetPath of
                 None \<Rightarrow> None
               | Some content \<Rightarrow>
                   (let markdownPath = (if truthy (pc_markdownPath content) then orEmpty (pc_markdownPath content)
                                        else buildMarkdownPath (pc_path content))
                    in Some \<lparr>res_status = 200,
                             res_headers = [(''Content-Type'', ''text/markdown; charset=utf-8''),
                                            (''Vary'', ''Accept'')],
                             res_body = renderSeoMarkdown (content\<lparr>pc_markdownPath := Some markdownPath\<rparr>)\<rparr>)))"

section \<open>Sitemaps (generation/sitemap.ts)\<close>

text \<open>\<open>value.replace(/&/g, '&amp;').replace(/</g, '&lt;').replace(/>/g, '&gt;')\<close>.\<close>

definition escapeXml :: "string \<Rightarrow> string" where
  "escapeXml v =
     concat (map (\<lambda>c. if c = CHR ''&'' then ''&amp;'' else if c = CHR ''<'' then ''&lt;''
                        else if c = CHR ''>'' then ''&gt;'' else [c]) v)"

text \<open>
  \<^verbatim>\<open>
  export const chunk = <T>(items: T[], size: number) => {
    const result: T[][] = []
    for (let i = 0; i < items.length; i += size) {
      result.push(items.slice(i, i + size))
    }
    return result
  }
  \<close>
  With \<open>size = 0\<close> and an item the loop never ends: the loop is a partial function, its not
  returning is the value \<open>None\<close>. (The sizes are natural numbers.)
\<close>

partial_function (option) chunkLoop :: "'a list \<Rightarrow> nat \<Rightarrow> nat \<Rightarrow> 'a list list \<Rightarrow> 'a list list option" where
  "chunkLoop items n i result =
     (if i < length items then chunkLoop items n (i + n) (result @ [take n (drop i items)])
      else Some result)"

definition chunk :: "'a list \<Rightarrow> nat \<Rightarrow> 'a list list option" where
  "chunk items n = chunkLoop items n 0 []"

definition buildSitemapXml :: "string list \<Rightarrow> string" where
  "buildSitemapXml entries =
     joinWith [LF]
       ([[CHR ''<'', CHR ''?''] @ ''xml version='' @ [CHR 0x22] @ ''1.0'' @ [CHR 0x22] @ '' encoding=''
           @ [CHR 0x22] @ ''UTF-8'' @ [CHR 0x22] @ [CHR ''?'', CHR ''>''],
         ''<urlset xmlns='' @ [CHR 0x22] @ ''http://www.sitemaps.org/schemas/sitemap/0.9'' @ [CHR 0x22] @ ''>'']
        @ entries @ [''</urlset>'', []])"

definition buildSitemapIndexXml :: "string list \<Rightarrow> string" where
  "buildSitemapIndexXml entries =
     joinWith [LF]
       ([[CHR ''<'', CHR ''?''] @ ''xml version='' @ [CHR 0x22] @ ''1.0'' @ [CHR 0x22] @ '' encoding=''
           @ [CHR 0x22] @ ''UTF-8'' @ [CHR 0x22] @ [CHR ''?'', CHR ''>''],
         ''<sitemapindex xmlns='' @ [CHR 0x22] @ ''http://www.sitemaps.org/schemas/sitemap/0.9'' @ [CHR 0x22] @ ''>'']
        @ entries @ [''</sitemapindex>'', []])"

text \<open>
  \<open>normalizeLastmod\<close> reads a date with \<open>new Date(value)\<close> and prints it with
  \<open>toISOString()\<close>: the parameter \<open>isoDate\<close> stands for the two, \<open>None\<close> for an invalid date.
  \<^verbatim>\<open>
  const normalizeLastmod = (value?: string | null) => {
    if (!value) return null
    const parsed = new Date(value)
    if (Number.isNaN(parsed.getTime())) return null
    return parsed.toISOString()
  }
  \<close>
\<close>

definition normalizeLastmod :: "(string \<Rightarrow> string option) \<Rightarrow> string option \<Rightarrow> string option" where
  "normalizeLastmod isoDate v = (if \<not> truthy v then None else isoDate (orEmpty v))"

definition buildSitemapEntry :: "(string \<Rightarrow> string option) \<Rightarrow> string \<Rightarrow> SeoRoute \<Rightarrow> string" where
  "buildSitemapEntry isoDate baseUrl route =
     (let loc = baseUrl @ route_path route;
          isHome = (route_path route = ''/'');
          changefreq = (if isHome then ''daily'' else ''weekly'');
          priority = (if isHome then ''1.0'' else ''0.7'');
          lastmod = normalizeLastmod isoDate (orElse (route_updatedAt route) (route_publishedAt route))
      in joinWith [LF]
           ([''  <url>'', ''    <loc>'' @ escapeXml loc @ ''</loc>'']
            @ (if truthy lastmod then [''    <lastmod>'' @ escapeXml (orEmpty lastmod) @ ''</lastmod>''] else [])
            @ [''    <changefreq>'' @ changefreq @ ''</changefreq>'',
               ''    <priority>'' @ priority @ ''</priority>'',
               ''  </url>'']))"

definition buildSitemapEntries :: "(string \<Rightarrow> string option) \<Rightarrow> string \<Rightarrow> SeoRoute list \<Rightarrow> string list" where
  "buildSitemapEntries isoDate baseUrl routes = map (buildSitemapEntry isoDate baseUrl) routes"

section \<open>The sitemap files of generateSeoArtifacts (generation/generate.ts)\<close>

text \<open>\<open>dedupeRoutes\<close>: the first route of every path.\<close>

fun dedupeLoop :: "SeoRoute list \<Rightarrow> string list \<Rightarrow> SeoRoute list" where
  "dedupeLoop [] seen = []"
| "dedupeLoop (route # routes) seen =
     (if route_path route \<in> set seen then dedupeLoop routes seen
      else route # dedupeLoop routes (route_path route # seen))"

definition dedupeRoutes :: "SeoRoute list \<Rightarrow> SeoRoute list" where
  "dedupeRoutes routes = dedupeLoop routes []"

text \<open>
  A file written by \<open>fs.writeFile\<close>: its name under \<open>outputDir\<close> and its content. The part
  of \<open>generateSeoArtifacts\<close> that writes the sitemap, from the routes gathered
  (\<open>[...staticRoutes, ...marketingRoutesWithDates, ...getProgrammaticSeoRoutes(config)]\<close>):
  \<^verbatim>\<open>
  const routes = dedupeRoutes([...])
  const indexableRoutes = routes.filter((route) => route.indexable)
  const urlEntries = buildSitemapEntries(baseUrl, indexableRoutes)
  const MAX_URLS_PER_SITEMAP = 45000
  const sitemapChunks = chunk(urlEntries, MAX_URLS_PER_SITEMAP)
  if (sitemapChunks.length <= 1) {
    const sitemap = buildSitemapXml(sitemapChunks[0] || [])
    await fs.writeFile(sitemapPath, sitemap, 'utf8')
  } else {
    const sitemapIndexEntries: string[] = []
    for (let index = 0; index < sitemapChunks.length; index += 1) {
      const entries = sitemapChunks[index] || []
      const chunkName = `sitemap-${index + 1}.xml`
      const chunkPath = path.join(outputDir, chunkName)
      const xml = buildSitemapXml(entries)
      await fs.writeFile(chunkPath, xml, 'utf8')
      sitemapIndexEntries.push(
        ['  <sitemap>', `    <loc>${baseUrl}/${chunkName}</loc>`, '  </sitemap>'].join('\n'))
    }
    const sitemapIndex = buildSitemapIndexXml(sitemapIndexEntries)
    await fs.writeFile(sitemapPath, sitemapIndex, 'utf8')
  }
  \<close>
  The result lists the files in the order they are written.
\<close>

record writtenFile =
  file_name :: string
  file_content :: string

definition MAX_URLS_PER_SITEMAP :: nat where
  "MAX_URLS_PER_SITEMAP = 45000"

definition chunkName :: "nat \<Rightarrow> string" where
  "chunkName index = ''sitemap-'' @ showNat (index + 1) @ ''.xml''"

definition sitemapIndexEntry :: "string \<Rightarrow> nat \<Rightarrow> string" where
  "sitemapIndexEntry baseUrl index =
     joinWith [LF] [''  <sitemap>'', ''    <loc>'' @ baseUrl @ ''/'' @ chunkName index @ ''</loc>'', ''  </sitemap>'']"

definition writeSitemaps :: "string \<Rightarrow> string list list \<Rightarrow> writtenFile list" where
  "writeSitemaps baseUrl sitemapChunks =
     (if length sitemapChunks \<le> 1
      then [\<lparr>file_name = ''sitemap.xml'',
              file_content = buildSitemapXml (case sitemapChunks of [] \<Rightarrow> [] | c # _ \<Rightarrow> c)\<rparr>]
      else map (\<lambda>(index, entries). \<lparr>file_name = chunkName index, file_content = buildSitemapXml entries\<rparr>)
             (enumerate 0 sitemapChunks)
           @ [\<lparr>file_name = ''sitemap.xml'',
                file_content = buildSitemapIndexXml
                  (map (sitemapIndexEntry baseUrl) [0 ..< length sitemapChunks])\<rparr>])"

definition generateSitemapFiles ::
  "(string \<Rightarrow> string option) \<Rightarrow> string \<Rightarrow> SeoRoute list \<Rightarrow> writtenFile list option" where
  "generateSitemapFiles isoDate baseUrl gathered =
     (let routes = dedupeRoutes gathered;
          indexableRoutes = filter route_indexable routes;
          urlEntries = buildSitemapEntries isoDate baseUrl indexableRoutes
      in case chunk urlEntries MAX_URLS_PER_SITEMAP of
           None \<Rightarrow> None
         | Some sitemapChunks \<Rightarrow> Some (writeSitemaps baseUrl sitemapChunks))"

section \<open>llms.txt (generation/llms.ts)\<close>

datatype ArticlesPlacement = AfterDocs | AfterProduct | AfterCompany | BeforeLegal | AtEnd | Omit

text \<open>The configuration that \<open>buildLlmsTxt\<close> reads: \<open>config.llms\<close> and the site-level
  fallbacks \<open>siteName\<close>, \<open>siteSummary\<close>, \<open>contact\<close> and \<open>capabilities\<close>.\<close>

record LlmsSection =
  ls_heading :: string
  ls_links :: "SeoLink list"
  ls_description :: "string list option"

record LlmsConfig =
  llms_title :: "string option"
  llms_summary :: "string option"
  llms_contact :: "string option"
  llms_capabilities :: "string list option"
  llms_sections :: "LlmsSection list option"
  llms_articlesPlacement :: "ArticlesPlacement option"
  llms_template :: "string option"
  cfg_siteName :: "string option"
  cfg_siteSummary :: "string option"
  cfg_contact :: "string option"
  cfg_capabilities :: "string list option"

definition buildMarkdownLink :: "string \<Rightarrow> string \<Rightarrow> string" where
  "buildMarkdownLink label href = ''- ['' @ label @ '']('' @ href @ '')''"

definition defaultFooter :: string where
  "defaultFooter = ''Human-friendly pages are the same paths without .md.''"

definition buildSectionLines :: "string \<Rightarrow> string list \<Rightarrow> string list" where
  "buildSectionLines heading lines = (if lines = [] then [] else [''## '' @ heading] @ lines @ [[]])"

text \<open>\<open>sections.findIndex((section) => section.heading.toLowerCase().includes(keyword))\<close>:
  the index of the first such section, if there is one.\<close>

fun findSectionIndex :: "string list \<Rightarrow> string \<Rightarrow> nat option" where
  "findSectionIndex [] keyword = None"
| "findSectionIndex (heading # headings) keyword =
     (if sublist keyword (toLowerCase heading) then Some 0
      else map_option Suc (findSectionIndex headings keyword))"

definition resolveArticlesInsertIndex :: "string list \<Rightarrow> ArticlesPlacement \<Rightarrow> nat" where
  "resolveArticlesInsertIndex headings placement =
     (if headings = [] then 0
      else (case placement of
              AfterDocs \<Rightarrow> (case findSectionIndex headings ''doc'' of None \<Rightarrow> length headings | Some idx \<Rightarrow> idx + 1)
            | AfterProduct \<Rightarrow>
                (case findSectionIndex headings ''product'' of None \<Rightarrow> length headings | Some idx \<Rightarrow> idx + 1)
            | AfterCompany \<Rightarrow>
                (case findSectionIndex headings ''company'' of None \<Rightarrow> length headings | Some idx \<Rightarrow> idx + 1)
            | BeforeLegal \<Rightarrow> (case findSectionIndex headings ''legal'' of None \<Rightarrow> length headings | Some idx \<Rightarrow> idx)
            | AtEnd \<Rightarrow> length headings
            | Omit \<Rightarrow> length headings))"

text \<open>The replacement text of \<open>String.prototype.replace\<close> with a pattern that has no
  group: \<open>$$\<close> is a dollar sign, \<open>$&\<close> the match, \<open>$`\<close> the text before the match, \<open>$'\<close> the
  text after it; any other dollar sign stands for itself.\<close>

fun expandReplacement :: "string \<Rightarrow> string \<Rightarrow> string \<Rightarrow> string \<Rightarrow> string" where
  "expandReplacement matched pre post (a # b # r) =
     (if a = CHR ''$'' \<and> b = CHR ''$'' then CHR ''$'' # expandReplacement matched pre post r
      else if a = CHR ''$'' \<and> b = CHR ''&'' then matched @ expandReplacement matched pre post r
      else if a = CHR ''$'' \<and> b = CHR 0x60 then pre @ expandReplacement matched pre post r
      else if a = CHR ''$'' \<and> b = CHR 0x27 then post @ expandReplacement matched pre post r
      else a # expandReplacement matched pre post (b # r))"
| "expandReplacement matched pre post r = r"

text \<open>The pattern \<open>/\{\{\s*name\s*\}\}/\<close> at the start of \<open>s\<close>: the match and the text
  after it.\<close>

definition matchPlaceholder :: "string \<Rightarrow> string \<Rightarrow> (string \<times> string) option" where
  "matchPlaceholder name s =
     (if prefix ''{{'' s
         \<and> prefix name (dropWhile isSpace (drop 2 s))
         \<and> prefix ''}}'' (dropWhile isSpace (drop (length name) (dropWhile isSpace (drop 2 s))))
      then (let rest = drop 2 (dropWhile isSpace (drop (length name) (dropWhile isSpace (drop 2 s))))
            in Some (take (length s - length rest) s, rest))
      else None)"

lemma matchPlaceholder_length:
  "matchPlaceholder name s = Some (m, rest) \<Longrightarrow> length rest < length s"
proof -
  assume a: "matchPlaceholder name s = Some (m, rest)"
  let ?d = "dropWhile isSpace (drop (length name) (dropWhile isSpace (drop 2 s)))"
  from a have p: "prefix ''{{'' s" and r: "rest = drop 2 ?d"
    by (auto simp: matchPlaceholder_def Let_def split: if_splits)
  from p obtain t where s: "s = ''{{'' @ t" by (auto simp: prefix_def)
  have "length ?d \<le> length (drop (length name) (dropWhile isSpace (drop 2 s)))"
    by (rule length_dropWhile_le)
  also have "\<dots> \<le> length (dropWhile isSpace (drop 2 s))" by simp
  also have "\<dots> \<le> length (drop 2 s)" by (rule length_dropWhile_le)
  finally have "length ?d \<le> length t" using s by simp
  then show ?thesis using r s by simp
qed

text \<open>\<open>s.replace(/\{\{\s*name\s*\}\}/g, replacement)\<close>: \<open>passed\<close> is the text already
  scanned (the text before a match).\<close>

function replacePlaceholder :: "string \<Rightarrow> string \<Rightarrow> string \<Rightarrow> string \<Rightarrow> string" where
  "replacePlaceholder name replacement passed [] = []"
| "replacePlaceholder name replacement passed (c # cs) =
     (case matchPlaceholder name (c # cs) of
        Some (m, rest) \<Rightarrow> expandReplacement m passed rest replacement @ replacePlaceholder name replacement (passed @ m) rest
      | None \<Rightarrow> c # replacePlaceholder name replacement (passed @ [c]) cs)"
  by pat_completeness auto
termination
proof (relation "measure (\<lambda>(name, replacement, passed, s). length s)", goal_cases)
  case 1
  show ?case by simp
next
  case (2 name replacement passed c cs)
  show ?case by simp
next
  case (3 name replacement passed c cs p m rest)
  then have "matchPlaceholder name (c # cs) = Some (m, rest)" by simp
  from matchPlaceholder_length [OF this] show ?case by simp
qed

text \<open>
  \<^verbatim>\<open>
  export const buildLlmsTxt = (options) => {
    const { config, baseUrl, articleLinks } = options
    const llms = config.llms
    const title = llms.title || config.siteName || 'Site'
    const summary = llms.summary || config.siteSummary
    const contact = llms.contact || config.contact
    const capabilities = llms.capabilities || config.capabilities
    const sections = llms.sections || []
    const articlesPlacement = llms.articlesPlacement || 'after-company'
    const lines: string[] = []
    lines.push(`# ${title}`)
    if (summary) { lines.push(`> ${summary}`) }
    lines.push('')
    if (contact) { lines.push(`Contact: ${contact}.`); lines.push('') }
    if (capabilities?.length) {
      lines.push('## Capabilities')
      capabilities.forEach((capability) => { lines.push(`- ${capability}`) })
      lines.push('')
    }
    const sectionBlocks = sections.map((section) => {
      const blockLines: string[] = []
      if (section.description?.length) { blockLines.push(...section.description) }
      section.links.forEach((link) => { blockLines.push(buildMarkdownLink(link.label, link.href)) })
      return { heading: section.heading, lines: buildSectionLines(section.heading, blockLines) }
    })
    const articlesLines = buildSectionLines('Articles',
      articleLinks.length ? articleLinks.map((link) => buildMarkdownLink(link.label, link.href))
                          : ['- (No articles listed)'])
    const orderedSections: string[] = []
    if (articlesPlacement !== 'omit') {
      const insertIndex = resolveArticlesInsertIndex(sectionBlocks, articlesPlacement)
      sectionBlocks.forEach((section, index) => {
        if (index === insertIndex) { orderedSections.push(...articlesLines) }
        orderedSections.push(...section.lines)
      })
      if (insertIndex >= sectionBlocks.length) { orderedSections.push(...articlesLines) }
    } else {
      sectionBlocks.forEach((section) => { orderedSections.push(...section.lines) })
    }
    lines.push(...orderedSections)
    if (llms.template) {
      return template.replace(/\{\{\s*siteName\s*\}\}/g, title)
        .replace(/\{\{\s*summary\s*\}\}/g, summary || '')
        .replace(/\{\{\s*contact\s*\}\}/g, contact || '')
        .replace(/\{\{\s*articles\s*\}\}/g, articlesLines.join('\n'))
        .replace(/\{\{\s*sections\s*\}\}/g, orderedSections.join('\n'))
        .replace(/\{\{\s*baseUrl\s*\}\}/g, baseUrl)
        .trim().concat('\n')
    }
    if (llms.sections?.length || articlesPlacement !== 'omit') { lines.push(defaultFooter) }
    return `${lines.join('\n').trim()}\n`
  }
  \<close>
\<close>

definition llmsTitle :: "LlmsConfig \<Rightarrow> string" where
  "llmsTitle config = (case orElse (llms_title config) (cfg_siteName config) of
                         None \<Rightarrow> ''Site'' | Some t \<Rightarrow> if t = [] then ''Site'' else t)"

definition llmsSummary :: "LlmsConfig \<Rightarrow> string option" where
  "llmsSummary config = orElse (llms_summary config) (cfg_siteSummary config)"

definition llmsContact :: "LlmsConfig \<Rightarrow> string option" where
  "llmsContact config = orElse (llms_contact config) (cfg_contact config)"

definition llmsCapabilities :: "LlmsConfig \<Rightarrow> string list option" where
  "llmsCapabilities config =
     (case llms_capabilities config of None \<Rightarrow> cfg_capabilities config | Some c \<Rightarrow> Some c)"

definition headerLines :: "LlmsConfig \<Rightarrow> string list" where
  "headerLines config =
     [''# '' @ llmsTitle config]
     @ (if truthy (llmsSummary config) then [''> '' @ orEmpty (llmsSummary config)] else [])
     @ [[]]
     @ (if truthy (llmsContact config) then [''Contact: '' @ orEmpty (llmsContact config) @ ''.'', []] else [])
     @ (if hasItems (llmsCapabilities config)
        then [''## Capabilities''] @ map (\<lambda>capability. ''- '' @ capability) (itemsOf (llmsCapabilities config)) @ [[]]
        else [])"

definition sectionBlockLines :: "LlmsSection \<Rightarrow> string list" where
  "sectionBlockLines section =
     buildSectionLines (ls_heading section)
       ((if hasItems (ls_description section) then itemsOf (ls_description section) else [])
        @ map (\<lambda>link. buildMarkdownLink (link_label link) (link_href link)) (ls_links section))"

definition articlesLines :: "SeoLink list \<Rightarrow> string list" where
  "articlesLines articleLinks =
     buildSectionLines ''Articles''
       (if articleLinks \<noteq> [] then map (\<lambda>link. buildMarkdownLink (link_label link) (link_href link)) articleLinks
        else [''- (No articles listed)''])"

definition orderedSections :: "LlmsConfig \<Rightarrow> SeoLink list \<Rightarrow> string list" where
  "orderedSections config articleLinks =
     (let sections = itemsOf (llms_sections config);
          articlesPlacement = (case llms_articlesPlacement config of None \<Rightarrow> AfterCompany | Some p \<Rightarrow> p)
      in if articlesPlacement \<noteq> Omit
         then (let insertIndex = resolveArticlesInsertIndex (map ls_heading sections) articlesPlacement
               in concat (map (\<lambda>(index, section).
                                 (if index = insertIndex then articlesLines articleLinks else [])
                                 @ sectionBlockLines section)
                            (enumerate 0 sections))
                  @ (if insertIndex \<ge> length sections then articlesLines articleLinks else []))
         else concat (map sectionBlockLines sections))"

definition buildLlmsTxt :: "LlmsConfig \<Rightarrow> string \<Rightarrow> SeoLink list \<Rightarrow> string" where
  "buildLlmsTxt config baseUrl articleLinks =
     (let articlesPlacement = (case llms_articlesPlacement config of None \<Rightarrow> AfterCompany | Some p \<Rightarrow> p);
          lines = headerLines config @ orderedSections config articleLinks
      in if truthy (llms_template config)
         then trim
                (replacePlaceholder ''baseUrl'' baseUrl []
                  (replacePlaceholder ''sections'' (joinWith [LF] (orderedSections config articleLinks)) []
                    (replacePlaceholder ''articles'' (joinWith [LF] (articlesLines articleLinks)) []
                      (replacePlaceholder ''contact'' (orEmpty (llmsContact config)) []
                        (replacePlaceholder ''summary'' (orEmpty (llmsSummary config)) []
                          (replacePlaceholder ''siteName'' (llmsTitle config) []
                            (orEmpty (llms_template config))))))))
              @ [LF]
         else trim (joinWith [LF]
                      (lines @ (if hasItems (llms_sections config) \<or> articlesPlacement \<noteq> Omit
                                then [defaultFooter] else [])))
              @ [LF])"

section \<open>Metadata normalisers (utils/normalize.ts)\<close>


definition groupOfName :: "string \<Rightarrow> SeoRouteGroup option" where
  "groupOfName s =
     (if s = ''use-cases'' then Some UseCases else if s = ''company'' then Some Company
      else if s = ''resources'' then Some Resources else if s = ''content'' then Some Content
      else None)"

definition normalizeGroup :: "meta_value option \<Rightarrow> SeoRouteGroup" where
  "normalizeGroup v =
     (case v of
        Some (MStr s) \<Rightarrow> (case groupOfName (toLowerCase (trim s)) of None \<Rightarrow> Content | Some g \<Rightarrow> g)
      | _ \<Rightarrow> Content)"



section \<open>The programmatic engine (programmatic/index.ts)\<close>

text \<open>A template and a dataset record, as their types declare them. Every declared key of a
  record is a reserved token key; \<open>rec_extras\<close> holds the other string-valued properties of
  the JSON object and \<open>rec_tokens\<close> the entries of its \<open>tokens\<close> object (an object has one
  entry for a key).\<close>

record ProgrammaticTemplate =
  tpl_id :: string
  tpl_route :: string
  tpl_group :: "SeoRouteGroup option"
  tpl_indexable :: "bool option"
  tpl_llms :: "bool option"
  tpl_schemaType :: "SeoSchemaType option"
  tpl_ogType :: "string option"
  tpl_ogImage :: "string option"
  tpl_eyebrow :: "string option"
  tpl_cta :: "SeoCta option"
  tpl_title :: string
  tpl_heading :: "string option"
  tpl_description :: "string option"
  tpl_seoTitle :: "string option"
  tpl_seoDescription :: "string option"
  tpl_sections :: "SeoSection list option"
  tpl_faqs :: "SeoFaq list option"
  tpl_featureList :: "string list option"
  tpl_hub :: "SeoLink option"

record ProgrammaticRecord =
  rec_slug :: string
  rec_label :: "string option"
  rec_title :: "string option"
  rec_heading :: "string option"
  rec_description :: "string option"
  rec_seoTitle :: "string option"
  rec_seoDescription :: "string option"
  rec_eyebrow :: "string option"
  rec_ogImage :: "string option"
  rec_ogType :: "string option"
  rec_schemaType :: "SeoSchemaType option"
  rec_cta :: "SeoCta option"
  rec_sections :: "SeoSection list option"
  rec_faqs :: "SeoFaq list option"
  rec_featureList :: "string list option"
  rec_tags :: "string list option"
  rec_relatedSlugs :: "string list option"
  rec_hub :: "SeoLink option"
  rec_tokens :: "(string \<times> string) list option"
  rec_publishedAt :: "string option"
  rec_updatedAt :: "string option"
  rec_indexable :: "bool option"
  rec_llms :: "bool option"
  rec_extras :: "(string \<times> string) list"

record ProgrammaticPageRecord =
  page_path :: string
  page_label :: string
  page_group :: SeoRouteGroup
  page_indexable :: bool
  page_publishedAt :: "string option"
  page_updatedAt :: "string option"
  page_llms :: "bool option"
  page_templateId :: string
  page_slug :: string
  page_tags :: "string list option"
  page_relatedSlugs :: "string list option"
  page_hub :: "SeoLink option"
  page_content :: SeoPageContent


text \<open>
  \<^verbatim>\<open>
  const buildBreadcrumbs = (pathValue: string): SeoBreadcrumb[] => {
    const segments = pathValue.split('/').filter(Boolean)
    const breadcrumbs: SeoBreadcrumb[] = [{ name: 'Home', path: '/' }]
    let currentPath = ''
    for (const segment of segments) {
      currentPath += `/${segment}`
      breadcrumbs.push({ name: titleCase(segment), path: currentPath })
    }
    return breadcrumbs
  }
  \<close>
\<close>

fun breadcrumbLoop :: "string list \<Rightarrow> string \<Rightarrow> SeoBreadcrumb list" where
  "breadcrumbLoop [] currentPath = []"
| "breadcrumbLoop (segment # segments) currentPath =
     \<lparr>crumb_name = titleCase segment, crumb_path = currentPath @ ''/'' @ segment\<rparr>
     # breadcrumbLoop segments (currentPath @ ''/'' @ segment)"

definition buildBreadcrumbs :: "string \<Rightarrow> SeoBreadcrumb list" where
  "buildBreadcrumbs pathValue =
     \<lparr>crumb_name = ''Home'', crumb_path = ''/''\<rparr>
     # breadcrumbLoop (filter (\<lambda>s. s \<noteq> []) (splitOn (CHR ''/'') pathValue)) []"

text \<open>\<open>tokens[key] ?? ''\<close>.\<close>

definition tokenValue :: "(string \<rightharpoonup> string) \<Rightarrow> string \<Rightarrow> string" where
  "tokenValue tokens key = (case tokens key of None \<Rightarrow> [] | Some v \<Rightarrow> v)"

text \<open>
  \<open>value.replace(/\{\{\s*([^}]+?)\s*\}\}/g, (_match, key) => tokens[key] ?? '')\<close>. Between
  \<open>{{\<close> and the first closing brace lies the segment; \<open>}}\<close> must follow it. The key is the
  trimmed segment, or the last character of a segment of white space only.
\<close>

definition templateKey :: "string \<Rightarrow> string option" where
  "templateKey seg = (if trim seg \<noteq> [] then Some (trim seg) else if seg \<noteq> [] then Some [last seg] else None)"

function renderTemplateString :: "string \<Rightarrow> (string \<rightharpoonup> string) \<Rightarrow> string" where
  "renderTemplateString [] tokens = []"
| "renderTemplateString (c # cs) tokens =
     (if prefix ''{{'' (c # cs)
         \<and> templateKey (takeWhile (\<lambda>x. x \<noteq> CHR ''}'') (drop 1 cs)) \<noteq> None
         \<and> prefix ''}}'' (dropWhile (\<lambda>x. x \<noteq> CHR ''}'') (drop 1 cs))
      then tokenValue tokens (orEmpty (templateKey (takeWhile (\<lambda>x. x \<noteq> CHR ''}'') (drop 1 cs))))
           @ renderTemplateString (drop 2 (dropWhile (\<lambda>x. x \<noteq> CHR ''}'') (drop 1 cs))) tokens
      else c # renderTemplateString cs tokens)"
  by pat_completeness auto
termination
proof (relation "measure (\<lambda>(s, tokens). length s)", goal_cases)
  case 1
  show ?case by simp
next
  case (2 c cs tokens)
  have "length (dropWhile (\<lambda>x. x \<noteq> CHR ''}'') (drop 1 cs)) \<le> length cs"
    using length_dropWhile_le [of "\<lambda>x. x \<noteq> CHR ''}''" "drop 1 cs"] by simp
  then show ?case by simp
next
  case (3 c cs tokens)
  show ?case by simp
qed

definition renderCta :: "SeoCta option \<Rightarrow> (string \<rightharpoonup> string) \<Rightarrow> SeoCta option" where
  "renderCta cta tokens =
     (case cta of
        None \<Rightarrow> None
      | Some c \<Rightarrow>
          Some \<lparr>cta_label = renderTemplateString (cta_label c) tokens,
                cta_href = renderTemplateString (cta_href c) tokens,
                cta_note = (if truthy (cta_note c) then Some (renderTemplateString (orEmpty (cta_note c)) tokens)
                            else None)\<rparr>)"

definition renderSections :: "SeoSection list option \<Rightarrow> (string \<rightharpoonup> string) \<Rightarrow> SeoSection list option" where
  "renderSections sections tokens =
     (if \<not> hasItems sections then None
      else Some (filter (\<lambda>section. section_heading section \<noteq> [] \<or> section_markdown section \<noteq> [])
                   (map (\<lambda>section. \<lparr>section_heading = trim (renderTemplateString (section_heading section) tokens),
                                      section_markdown = trim (renderTemplateString (section_markdown section) tokens)\<rparr>)
                      (itemsOf sections))))"

definition renderFaqs :: "SeoFaq list option \<Rightarrow> (string \<rightharpoonup> string) \<Rightarrow> SeoFaq list option" where
  "renderFaqs faqs tokens =
     (if \<not> hasItems faqs then None
      else Some (filter (\<lambda>faq. faq_question faq \<noteq> [] \<and> faq_answer faq \<noteq> [])
                   (map (\<lambda>faq. \<lparr>faq_question = trim (renderTemplateString (faq_question faq) tokens),
                                  faq_answer = trim (renderTemplateString (faq_answer faq) tokens)\<rparr>)
                      (itemsOf faqs))))"

definition renderList :: "string list option \<Rightarrow> (string \<rightharpoonup> string) \<Rightarrow> string list option" where
  "renderList items tokens =
     (if \<not> hasItems items then None
      else Some (filter (\<lambda>s. s \<noteq> []) (map (\<lambda>item. trim (renderTemplateString item tokens)) (itemsOf items))))"

subsection \<open>resolveRoute\<close>








definition resolveLabel :: "ProgrammaticRecord \<Rightarrow> string \<Rightarrow> string \<Rightarrow> string" where
  "resolveLabel record title slug =
     (if truthy (rec_label record) then orEmpty (rec_label record)
      else if title \<noteq> [] then title else titleCase slug)"

subsection \<open>The first loop of buildProgrammaticIndex\<close>

text \<open>\<open>a || b\<close> on optional values that are objects (always truthy when present), and
  \<open>a ?? b\<close>.\<close>

definition orOpt :: "'a option \<Rightarrow> 'a option \<Rightarrow> 'a option" where
  "orOpt a b = (case a of None \<Rightarrow> b | Some v \<Rightarrow> Some v)"

text \<open>The page of a record, built by the body of \<open>for (const record of dataset)\<close> once the
  route is resolved.\<close>

definition buildPage ::
  "ProgrammaticTemplate \<Rightarrow> ProgrammaticRecord \<Rightarrow> (string \<rightharpoonup> string) \<Rightarrow> string \<Rightarrow> ProgrammaticPageRecord" where
  "buildPage template record tokens routePath =
     (let title = (if truthy (rec_title record) then orEmpty (rec_title record)
                   else trim (renderTemplateString (tpl_title template) tokens));
          heading = (if truthy (rec_heading record) then orEmpty (rec_heading record)
                     else trim (renderTemplateString
                                  (if truthy (tpl_heading template) then orEmpty (tpl_heading template)
                                   else tpl_title template) tokens));
          description = (if truthy (rec_description record) then trim (orEmpty (rec_description record))
                         else trim (renderTemplateString (orEmpty (tpl_description template)) tokens));
          seoTitle = (if truthy (rec_seoTitle record) then trim (orEmpty (rec_seoTitle record))
                      else trim (renderTemplateString (orEmpty (tpl_seoTitle template)) tokens));
          seoDescription = (if truthy (rec_seoDescription record) then trim (orEmpty (rec_seoDescription record))
                            else trim (renderTemplateString (orEmpty (tpl_seoDescription template)) tokens));
          sections = (if hasItems (rec_sections record) then rec_sections record
                      else renderSections (tpl_sections template) tokens);
          faqs = (if hasItems (rec_faqs record) then rec_faqs record else renderFaqs (tpl_faqs template) tokens);
          featureList = (if hasItems (rec_featureList record) then rec_featureList record
                         else renderList (tpl_featureList template) tokens);
          grp = (case tpl_group template of None \<Rightarrow> Content | Some g \<Rightarrow> g);
          indexable = (case orOpt (rec_indexable record) (tpl_indexable template) of None \<Rightarrow> True | Some b \<Rightarrow> b);
          llms = orOpt (rec_llms record) (tpl_llms template)
      in \<lparr>page_path = routePath,
          page_label = resolveLabel record title (rec_slug record),
          page_group = grp,
          page_indexable = indexable,
          page_publishedAt = rec_publishedAt record,
          page_updatedAt = rec_updatedAt record,
          page_llms = llms,
          page_templateId = tpl_id template,
          page_slug = rec_slug record,
          page_tags = rec_tags record,
          page_relatedSlugs = rec_relatedSlugs record,
          page_hub = orOpt (rec_hub record) (tpl_hub template),
          page_content =
            \<lparr>pc_path = routePath, pc_group = grp, pc_indexable = indexable,
             pc_publishedAt = rec_publishedAt record, pc_updatedAt = rec_updatedAt record,
             pc_llms = llms, pc_nav = None, pc_navOrder = None, pc_tags = rec_tags record,
             pc_markdownPath = Some (buildMarkdownPath routePath),
             pc_eyebrow = orElse (rec_eyebrow record) (tpl_eyebrow template),
             pc_title = title, pc_heading = orStr heading title,
             pc_description = nonEmpty description,
             pc_seoTitle = nonEmpty seoTitle, pc_seoDescription = nonEmpty seoDescription,
             pc_ogImage = orElse (rec_ogImage record) (tpl_ogImage template),
             pc_ogType = orElse (rec_ogType record) (tpl_ogType template),
             pc_schemaType = orOpt (rec_schemaType record) (tpl_schemaType template),
             pc_cta = orOpt (rec_cta record) (renderCta (tpl_cta template) tokens),
             pc_steps = None, pc_pricing = None, pc_trust = None,
             pc_faqs = faqs, pc_featureList = featureList, pc_sections = sections,
             pc_relatedLinks = None, pc_resourceLinks = None,
             pc_breadcrumbs = Some (buildBreadcrumbs routePath)\<rparr>\<rparr>)"




section \<open>The marketing content index (content/marketing.ts)\<close>











section \<open>Sample data\<close>

text \<open>Inputs at which the theorems below are instantiated. \<open>sampleRoute i\<close> is an indexable
  route; two of them differ in their paths.\<close>

definition sampleRoute :: "nat \<Rightarrow> SeoRoute" where
  "sampleRoute i =
     \<lparr>route_path = ''/p'' @ replicate i (CHR ''x''), route_label = ''Page'', route_group = Content,
      route_indexable = True, route_publishedAt = None, route_updatedAt = None, route_nav = None,
      route_navOrder = None, route_llms = None\<rparr>"

text \<open>The tokens of a body with a title, a paragraph, a depth-2 heading and a paragraph
  under it.\<close>

definition sampleTokens :: "token list" where
  "sampleTokens =
     [\<lparr>tok_type = ''heading'', tok_depth = 1, tok_text = Some ''Title'', tok_raw = Some ''# Title'', tok_items = []\<rparr>,
      \<lparr>tok_type = ''paragraph'', tok_depth = 0, tok_text = Some ''Body.'', tok_raw = Some ''Body.'', tok_items = []\<rparr>,
      \<lparr>tok_type = ''heading'', tok_depth = 2, tok_text = Some ''Notes'', tok_raw = Some ''## Notes'', tok_items = []\<rparr>,
      \<lparr>tok_type = ''paragraph'', tok_depth = 0, tok_text = Some ''Kept.'', tok_raw = Some ''Kept.'', tok_items = []\<rparr>]"

text \<open>A page with a title and a description.\<close>

definition samplePage :: SeoPageContent where
  "samplePage =
     \<lparr>pc_path = ''/pricing'', pc_group = Content, pc_indexable = True, pc_publishedAt = None,
      pc_updatedAt = None, pc_llms = None, pc_nav = None, pc_navOrder = None, pc_tags = None,
      pc_markdownPath = None, pc_eyebrow = None, pc_title = ''Pricing'', pc_heading = ''Pricing'',
      pc_description = Some ''Simple plans.'', pc_seoTitle = None, pc_seoDescription = None,
      pc_ogImage = None, pc_ogType = None, pc_schemaType = None, pc_cta = None, pc_steps = None,
      pc_pricing = None, pc_trust = None, pc_faqs = None, pc_featureList = None, pc_sections = None,
      pc_relatedLinks = None, pc_resourceLinks = None, pc_breadcrumbs = None\<rparr>"




text \<open>Pages whose metadata gives a CTA (label \<open>Go\<close>, target \<open>/go\<close>) and whose body has a
  section under a CTA heading: one without a link (\<open>linklessBody\<close>), one with a link
  (\<open>linkedBody\<close>). \<open>ctaLexer\<close> returns for the two bodies the tokens that \<open>marked.lexer\<close>
  returns for them: the heading of depth 2 and the paragraph. \<open>parsedCta body cta\<close> is the parse
  result of such a page.\<close>

definition linklessBody :: string where
  "linklessBody = ''## CTA'' @ [LF] @ ''Just text''"

definition linkedBody :: string where
  "linkedBody = ''## Ready to send it?'' @ [LF] @ ''Send now. [Send now](/start)''"

definition ctaLexer :: "string \<Rightarrow> token list" where
  "ctaLexer body =
     (if body = linklessBody
      then [\<lparr>tok_type = ''heading'', tok_depth = 2, tok_text = Some ''CTA'', tok_raw = Some (''## CTA'' @ [LF]), tok_items = []\<rparr>,
            \<lparr>tok_type = ''paragraph'', tok_depth = 0, tok_text = Some ''Just text'', tok_raw = Some ''Just text'', tok_items = []\<rparr>]
      else if body = linkedBody
      then [\<lparr>tok_type = ''heading'', tok_depth = 2, tok_text = Some ''Ready to send it?'',
              tok_raw = Some (''## Ready to send it?'' @ [LF]), tok_items = []\<rparr>,
            \<lparr>tok_type = ''paragraph'', tok_depth = 0, tok_text = Some ''Send now. [Send now](/start)'',
              tok_raw = Some ''Send now. [Send now](/start)'', tok_items = []\<rparr>]
      else [])"

definition ctaMetaLines :: string where
  "ctaMetaLines = ''cta-label: Go'' @ [LF] @ ''cta-href: /go'' @ [LF]"

definition ctaMeta :: MetaBlock where
  "ctaMeta = [(''cta-label'', MStr ''Go''), (''cta-href'', MStr ''/go'')]"

definition linklessCtaFrontMatter :: string where
  "linklessCtaFrontMatter = ''---'' @ [LF] @ ctaMetaLines @ ''---'' @ [LF] @ linklessBody"

definition linklessCtaMetaBlock :: string where
  "linklessCtaMetaBlock = ''[meta]'' @ [LF] @ ctaMetaLines @ [LF] @ linklessBody"

definition linkedCtaFrontMatter :: string where
  "linkedCtaFrontMatter = ''---'' @ [LF] @ ctaMetaLines @ ''---'' @ [LF] @ linkedBody"

definition parsedCta :: "string \<Rightarrow> SeoCta \<Rightarrow> ParsedMarkdown" where
  "parsedCta body cta =
     \<lparr>pm_meta = ctaMeta, pm_body = body, pm_title = [], pm_heading = [], pm_description = [],
      pm_seoTitle = None, pm_seoDescription = None, pm_steps = None, pm_pricing = None, pm_trust = None,
      pm_faqs = None, pm_cta = Some cta, pm_relatedLinks = None, pm_resourceLinks = None,
      pm_featureList = None, pm_extraSections = None\<rparr>"





text \<open>A configuration of \<open>llms.txt\<close> with the placement \<open>omit\<close> and the given sections, and a
  section with one link.\<close>

definition docsSection :: LlmsSection where
  "docsSection = \<lparr>ls_heading = ''Docs'',
                   ls_links = [\<lparr>link_label = ''Guide'', link_href = ''/guide''\<rparr>],
                   ls_description = None\<rparr>"

definition omitConfig :: "LlmsSection list option \<Rightarrow> LlmsConfig" where
  "omitConfig sections =
     \<lparr>llms_title = Some ''Acme'', llms_summary = Some ''Guides for teams'', llms_contact = None,
      llms_capabilities = None, llms_sections = sections, llms_articlesPlacement = Some Omit,
      llms_template = None, cfg_siteName = None, cfg_siteSummary = None, cfg_contact = None,
      cfg_capabilities = None\<rparr>"

text \<open>A page whose title holds a colon, the body of its rendering, and a lexer that returns
  for this body the tokens that \<open>marked.lexer\<close> returns for it: the heading of depth 1 and the
  paragraph.\<close>

definition colonPage :: SeoPageContent where
  "colonPage = samplePage\<lparr>pc_title := ''Pricing: Plans'', pc_heading := ''Pricing: Plans''\<rparr>"

definition colonBody :: string where
  "colonBody = ''# Pricing: Plans'' @ [LF, LF] @ ''Simple plans.'' @ [LF]"

definition colonLexer :: "string \<Rightarrow> token list" where
  "colonLexer body =
     (if body = colonBody
      then [\<lparr>tok_type = ''heading'', tok_depth = 1, tok_text = Some ''Pricing: Plans'',
              tok_raw = Some (''# Pricing: Plans'' @ [LF, LF]), tok_items = []\<rparr>,
            \<lparr>tok_type = ''paragraph'', tok_depth = 0, tok_text = Some ''Simple plans.'',
              tok_raw = Some (''Simple plans.'' @ [LF]), tok_items = []\<rparr>]
      else [])"

section \<open>Notions used in the statements\<close>

text \<open>A token that starts a section: the test \<open>isHeadingToken(token) && token.depth === 2\<close>
  of \<open>buildSectionsFromTokens\<close>. \<open>sectionFields\<close> gathers the fields of a parse result that
  come from the sections. \<open>tokensOf sections current\<close> is the set of the tokens held by the
  sections of the loop and by its current section.\<close>

definition isSectionStart :: "token \<Rightarrow> bool" where
  "isSectionStart t \<longleftrightarrow> isHeadingToken t \<and> tok_depth t = 2"

definition sectionFields ::
  "ParsedMarkdown \<Rightarrow> SeoStep list option \<times> SeoPricing option \<times> SeoTrust option \<times> SeoFaq list option
     \<times> SeoCta option \<times> SeoLink list option \<times> SeoLink list option \<times> string list option
     \<times> SeoSection list option" where
  "sectionFields p =
     (pm_steps p, pm_pricing p, pm_trust p, pm_faqs p, pm_cta p, pm_relatedLinks p, pm_resourceLinks p,
      pm_featureList p, pm_extraSections p)"

definition tokensOf :: "MarkdownSection list \<Rightarrow> MarkdownSection option \<Rightarrow> token set" where
  "tokensOf sections current =
     (\<Union>s \<in> set sections. set (sec_tokens s)) \<union> (case current of None \<Rightarrow> {} | Some c \<Rightarrow> set (sec_tokens c))"

text \<open>\<open>content.markdownPath || buildMarkdownPath(content.path)\<close>: the markdown alternate
  that \<open>maybeRenderMarkdown\<close> puts into the content it renders.\<close>

definition markdownAlternate :: "SeoPageContent \<Rightarrow> string" where
  "markdownAlternate content =
     (if truthy (pc_markdownPath content) then orEmpty (pc_markdownPath content)
      else buildMarkdownPath (pc_path content))"

text \<open>The title that \<open>parseTokensForSummary\<close> finds in a body: the stripped text of its
  first depth-1 heading.\<close>

definition bodyTitle :: "(string \<Rightarrow> token list) \<Rightarrow> string \<Rightarrow> string" where
  "bodyTitle lexer body = sum_title (summaryOfTokens (lexer body))"

text \<open>\<open>sectionCtas\<close>: the CTAs that \<open>parseCta\<close> extracts from the sections under a CTA
  heading, in the order of the sections (a section without a link yields none).
  \<open>contentMetaCta\<close> and \<open>marketingMetaCta\<close>: the CTA that \<open>parseMarkdownContent\<close> and
  \<open>parseMarketingMarkdown\<close> build from the metadata keys \<open>cta-label\<close>, \<open>cta-href\<close> and
  \<open>cta-note\<close>.\<close>

definition sectionCtas :: "MarkdownSection list \<Rightarrow> SeoCta list" where
  "sectionCtas sections =
     List.map_filter parseCta (filter (\<lambda>s. normalizeHeading (sec_heading s) \<in> set CTA_HEADINGS) sections)"

definition contentMetaCta :: "MetaBlock \<Rightarrow> SeoCta" where
  "contentMetaCta meta =
     \<lparr>cta_label = metaStripped meta ''cta-label'',
      cta_href = (case map_of meta ''cta-href'' of Some (MStr s) \<Rightarrow> trim s | _ \<Rightarrow> []),
      cta_note = nonEmpty (metaStripped meta ''cta-note'')\<rparr>"

definition marketingMetaCta :: "MetaBlock \<Rightarrow> SeoCta" where
  "marketingMetaCta meta =
     \<lparr>cta_label = marketingStripped meta ''cta-label'',
      cta_href = (case map_of meta ''cta-href'' of
                    None \<Rightarrow> []
                  | Some v \<Rightarrow> if metaTruthy (Some v) then trim (metaText v) else []),
      cta_note = nonEmpty (marketingStripped meta ''cta-note'')\<rparr>"


text \<open>The texts that a configuration brings into \<open>llms.txt\<close>: the title, the summary, the
  contact and the capabilities that \<open>buildLlmsTxt\<close> resolves, and the heading, the description
  lines and the labels and targets of the links of every section. \<open>omitLines\<close>: the lines that
  \<open>buildLlmsTxt\<close> joins when the placement is \<open>omit\<close> and there is no template.\<close>

definition sectionTexts :: "LlmsSection \<Rightarrow> string list" where
  "sectionTexts section =
     ls_heading section # itemsOf (ls_description section)
       @ concat (map (\<lambda>link. [link_label link, link_href link]) (ls_links section))"

definition llmsTexts :: "LlmsConfig \<Rightarrow> string list" where
  "llmsTexts config =
     llmsTitle config # orEmpty (llmsSummary config) # orEmpty (llmsContact config)
       # itemsOf (llmsCapabilities config)
       @ concat (map sectionTexts (itemsOf (llms_sections config)))"

definition omitLines :: "LlmsConfig \<Rightarrow> string list" where
  "omitLines config =
     headerLines config @ concat (map sectionBlockLines (itemsOf (llms_sections config)))
       @ (if hasItems (llms_sections config) then [defaultFooter] else [])"

chapter \<open>Verification\<close>

section \<open>Path normalisation\<close>

lemma collapseSlashes_Nil_iff [simp]: "collapseSlashes s = [] \<longleftrightarrow> s = []"
  by (induction s rule: collapseSlashes.induct) auto

lemma hd_collapseSlashes [simp]: "hd (collapseSlashes s) = hd s"
  by (induction s rule: collapseSlashes.induct) auto

lemma set_collapseSlashes: "set (collapseSlashes s) \<subseteq> set s"
  by (induction s rule: collapseSlashes.induct) auto

lemma collapseSlashes_no_double: "\<not> sublist ''//'' (collapseSlashes s)"
proof (induction s rule: collapseSlashes.induct)
  case (1 a b cs)
  show ?case
  proof (cases "a = CHR ''/'' \<and> b = CHR ''/''")
    case True
    with 1 show ?thesis by simp
  next
    case False
    have "hd (collapseSlashes (b # cs)) = b" by simp
    moreover have "collapseSlashes (b # cs) \<noteq> []" by simp
    ultimately obtain r where r: "collapseSlashes (b # cs) = b # r"
      by (cases "collapseSlashes (b # cs)") auto
    from False 1 r show ?thesis
      by (auto simp: sublist_Cons_right)
  qed
qed (auto simp: sublist_Cons_right)

lemma sublist_trans_not: "\<not> sublist p ys \<Longrightarrow> sublist xs ys \<Longrightarrow> \<not> sublist p xs"
proof
  assume n: "\<not> sublist p ys" and a: "sublist xs ys" and b: "sublist p xs"
  from a obtain u v where "ys = u @ xs @ v" by (auto simp: sublist_def)
  moreover from b obtain u' v' where "xs = u' @ p @ v'" by (auto simp: sublist_def)
  ultimately have "ys = (u @ u') @ p @ (v' @ v)" by simp
  then have "sublist p ys" unfolding sublist_def by blast
  with n show False by simp
qed

lemma stripTrailingSlashes_sublist: "sublist (stripTrailingSlashes s) s"
  by (simp add: stripTrailingSlashes_def sublist_rev_left)

lemma stripTrailingSlashes_last:
  "stripTrailingSlashes s \<noteq> [] \<Longrightarrow> last (stripTrailingSlashes s) \<noteq> CHR ''/''"
proof -
  assume ne: "stripTrailingSlashes s \<noteq> []"
  let ?d = "dropWhile (\<lambda>c. c = CHR ''/'') (rev s)"
  from ne have "?d \<noteq> []" by (simp add: stripTrailingSlashes_def)
  then have "hd ?d \<noteq> CHR ''/''"
    using hd_dropWhile [of "\<lambda>c. c = CHR ''/''" "rev s"] by simp
  moreover have "last (rev ?d) = hd ?d" using \<open>?d \<noteq> []\<close> by (simp add: last_rev)
  ultimately show ?thesis by (simp add: stripTrailingSlashes_def)
qed

lemma stripTrailingSlashes_hd:
  assumes "s \<noteq> []" "\<not> sublist ''//'' s" "length s > 1" "hd s = CHR ''/''"
  shows "stripTrailingSlashes s \<noteq> [] \<and> hd (stripTrailingSlashes s) = CHR ''/''"
proof -
  from assms obtain b cs where s: "s = CHR ''/'' # b # cs"
    by (cases s; cases "tl s") auto
  with assms have b: "b \<noteq> CHR ''/''" by (auto simp: sublist_Cons_right)
  have "rev s = rev cs @ [b] @ [CHR ''/'']" by (simp add: s)
  then have "dropWhile (\<lambda>c. c = CHR ''/'') (rev s)
      = dropWhile (\<lambda>c. c = CHR ''/'') (rev cs @ [b]) @ [CHR ''/'']"
    using b dropWhile_append1 [of b "rev cs @ [b]" "\<lambda>c. c = CHR ''/''" "[CHR ''/'']"] by simp
  then have "stripTrailingSlashes s = CHR ''/'' # rev (dropWhile (\<lambda>c. c = CHR ''/'') (rev cs @ [b]))"
    by (simp add: stripTrailingSlashes_def)
  then show ?thesis by simp
qed

lemma set_trim: "set (trim s) \<subseteq> set s"
proof -
  have "set (trimEnd t) \<subseteq> set t" for t
    unfolding trimEnd_def using set_dropWhileD by fastforce
  moreover have "set (trimStart s) \<subseteq> set s"
    unfolding trimStart_def using set_dropWhileD by fastforce
  ultimately show ?thesis unfolding trim_def by blast
qed

lemma normalizePath_cases:
  "normalizePath v = ''/'' \<or>
   (\<exists>n3. n3 = collapseSlashes (if prefix ''/'' (trim (takeWhile (\<lambda>c. c \<noteq> CHR ''?'') v))
                                 then trim (takeWhile (\<lambda>c. c \<noteq> CHR ''?'') v)
                                 else ''/'' @ trim (takeWhile (\<lambda>c. c \<noteq> CHR ''?'') v))
      \<and> (normalizePath v = n3 \<and> \<not> (length n3 > 1 \<and> suffix ''/'' n3)
         \<or> normalizePath v = stripTrailingSlashes n3 \<and> length n3 > 1 \<and> stripTrailingSlashes n3 \<noteq> []))"
  by (auto simp: normalizePath_def Let_def)

lemma slash_prefixed:
  "(if prefix ''/'' n1 then n1 else ''/'' @ n1) \<noteq> []
   \<and> hd (if prefix ''/'' n1 then n1 else ''/'' @ n1) = CHR ''/''"
  by (cases n1) auto

lemma normalizePath_facts:
  "normalizePath s \<noteq> [] \<and> hd (normalizePath s) = CHR ''/''
   \<and> CHR ''?'' \<notin> set (normalizePath s)
   \<and> \<not> sublist ''//'' (normalizePath s)
   \<and> (normalizePath s = ''/'' \<or> last (normalizePath s) \<noteq> CHR ''/'')"
proof -
  let ?w = "takeWhile (\<lambda>c. c \<noteq> CHR ''?'') s"
  let ?n2 = "if prefix ''/'' (trim ?w) then trim ?w else ''/'' @ trim ?w"
  let ?n3 = "collapseSlashes ?n2"
  have n2: "?n2 \<noteq> [] \<and> hd ?n2 = CHR ''/''" by (rule slash_prefixed)
  have n3: "?n3 \<noteq> []" "hd ?n3 = CHR ''/''" using n2 by auto
  have nd: "\<not> sublist ''//'' ?n3" by (rule collapseSlashes_no_double)
  have q: "CHR ''?'' \<notin> set ?n3"
  proof -
    have "CHR ''?'' \<notin> set ?w" using set_takeWhileD by fastforce
    then have "CHR ''?'' \<notin> set (trim ?w)" using set_trim by blast
    then have "CHR ''?'' \<notin> set ?n2" by auto
    then show ?thesis using set_collapseSlashes by blast
  qed
  consider (a) "normalizePath s = ''/''"
    | (b) "normalizePath s = ?n3" "\<not> (length ?n3 > 1 \<and> suffix ''/'' ?n3)"
    | (c) "normalizePath s = stripTrailingSlashes ?n3" "length ?n3 > 1" "stripTrailingSlashes ?n3 \<noteq> []"
    using normalizePath_cases [of s] by blast
  then show ?thesis
  proof cases
    case a
    then show ?thesis by (simp add: sublist_Cons_right)
  next
    case b
    have "?n3 = ''/'' \<or> last ?n3 \<noteq> CHR ''/''"
    proof (cases "length ?n3 > 1")
      case True
      with b(2) have "\<not> suffix ''/'' ?n3" by simp
      then show ?thesis using n3(1)
        by (metis append_butlast_last_id suffixI)
    next
      case False
      then have "length ?n3 = 1" using n3(1) by (cases ?n3) auto
      then show ?thesis using n3(2) by (cases ?n3) auto
    qed
    with b(1) n3 nd q show ?thesis by simp
  next
    case c
    have h: "stripTrailingSlashes ?n3 \<noteq> [] \<and> hd (stripTrailingSlashes ?n3) = CHR ''/''"
      using stripTrailingSlashes_hd [of ?n3] n3 nd c(2) by blast
    have l: "last (stripTrailingSlashes ?n3) \<noteq> CHR ''/''"
      using stripTrailingSlashes_last c(3) by blast
    have s: "sublist (stripTrailingSlashes ?n3) ?n3" by (rule stripTrailingSlashes_sublist)
    have "\<not> sublist ''//'' (stripTrailingSlashes ?n3)"
      using sublist_trans_not [OF nd s] .
    moreover have "CHR ''?'' \<notin> set (stripTrailingSlashes ?n3)"
      using q set_mono_sublist [OF s] by blast
    ultimately show ?thesis using c(1) h l by simp
  qed
qed

lemma normalizePath_query:
  "normalizePath (takeWhile (\<lambda>c. c \<noteq> CHR ''?'') s) = normalizePath s"
proof (cases "takeWhile (\<lambda>c. c \<noteq> CHR ''?'') s = []")
  case True
  then show ?thesis
    by (cases s) (auto simp: normalizePath_def Let_def trim_def trimStart_def trimEnd_def)
next
  case False
  then have "s \<noteq> []" by auto
  moreover have "takeWhile (\<lambda>c. c \<noteq> CHR ''?'') (takeWhile (\<lambda>c. c \<noteq> CHR ''?'') s)
      = takeWhile (\<lambda>c. c \<noteq> CHR ''?'') s" by simp
  ultimately show ?thesis using False unfolding normalizePath_def by simp
qed

text \<open>
  Claim C9. For every input string, \<open>normalizePath\<close> returns a path that starts with a slash,
  holds no question mark (the input is cut at its first question mark: normalising the text
  before it gives the same path), holds no double slash, and does not end with a slash unless
  it is the root path; the empty string maps to the root path.
\<close>

theorem normalizePath_shape:
  "normalizePath s \<noteq> [] \<and> hd (normalizePath s) = CHR ''/''
   \<and> CHR ''?'' \<notin> set (normalizePath s)
   \<and> normalizePath (takeWhile (\<lambda>c. c \<noteq> CHR ''?'') s) = normalizePath s
   \<and> \<not> sublist ''//'' (normalizePath s)
   \<and> (normalizePath s = ''/'' \<or> last (normalizePath s) \<noteq> CHR ''/'')
   \<and> normalizePath [] = ''/''"
proof -
  have "normalizePath [] = ''/''" by (simp add: normalizePath_def)
  with normalizePath_facts [of s] normalizePath_query [of s] show ?thesis by blast
qed

theorem normalizePath_shape_witness:
  "normalizePath '' docs//api/?page=2'' = ''/docs/api''
   \<and> last (normalizePath '' docs//api/?page=2'') \<noteq> CHR ''/''"
proof -
  have v: "normalizePath '' docs//api/?page=2'' = ''/docs/api''" by code_simp
  from normalizePath_shape [of "'' docs//api/?page=2''"] show ?thesis unfolding v by simp
qed

section \<open>Sitemap chunking\<close>

lemma dedupeLoop_distinct:
  "distinct (map route_path rs) \<Longrightarrow> set (map route_path rs) \<inter> set seen = {} \<Longrightarrow> dedupeLoop rs seen = rs"
proof (induction rs arbitrary: seen)
  case Nil
  then show ?case by simp
next
  case (Cons r rs)
  from Cons.prems have a: "route_path r \<notin> set seen" by auto
  from Cons.prems have "distinct (map route_path rs)"
    and "set (map route_path rs) \<inter> set (route_path r # seen) = {}" by auto
  from Cons.IH [OF this] a show ?case by simp
qed

lemma dedupeRoutes_distinct: "distinct (map route_path rs) \<Longrightarrow> dedupeRoutes rs = rs"
  by (simp add: dedupeRoutes_def dedupeLoop_distinct)

lemma sampleRoutes_distinct: "distinct (map route_path (map sampleRoute [0 ..< n]))"
proof -
  have "inj_on (\<lambda>i. route_path (sampleRoute i)) {0 ..< n}"
  proof (rule inj_onI)
    fix i j
    assume "route_path (sampleRoute i) = route_path (sampleRoute j)"
    then have "length (replicate i (CHR ''x'')) = length (replicate j (CHR ''x''))"
      by (simp add: sampleRoute_def)
    then show "i = j" by simp
  qed
  then show ?thesis by (simp add: distinct_map comp_def)
qed

lemma sampleRoutes_indexable:
  "filter route_indexable (dedupeRoutes (map sampleRoute [0 ..< n])) = map sampleRoute [0 ..< n]"
proof -
  have "dedupeRoutes (map sampleRoute [0 ..< n]) = map sampleRoute [0 ..< n]"
    by (rule dedupeRoutes_distinct) (rule sampleRoutes_distinct)
  moreover have "filter route_indexable (map sampleRoute [0 ..< n]) = map sampleRoute [0 ..< n]"
    by (simp add: filter_map comp_def sampleRoute_def)
  ultimately show ?thesis by simp
qed

lemma chunk_three:
  assumes len: "length es = 90001"
  shows "chunk es 45000 = Some [take 45000 es, take 45000 (drop 45000 es), drop 90000 es]"
proof -
  have "chunkLoop es 45000 0 [] = chunkLoop es 45000 45000 [take 45000 es]"
    by (subst chunkLoop.simps) (simp add: len)
  also have "\<dots> = chunkLoop es 45000 90000 [take 45000 es, take 45000 (drop 45000 es)]"
    by (subst chunkLoop.simps) (simp add: len)
  also have "\<dots> = chunkLoop es 45000 135000 [take 45000 es, take 45000 (drop 45000 es), drop 90000 es]"
    by (subst chunkLoop.simps) (simp add: len)
  also have "\<dots> = Some [take 45000 es, take 45000 (drop 45000 es), drop 90000 es]"
    by (subst chunkLoop.simps) (simp add: len)
  finally show ?thesis by (simp add: chunk_def)
qed

lemma chunk_one:
  assumes len: "length es = 10"
  shows "chunk es 45000 = Some [es]"
proof -
  have "chunkLoop es 45000 0 [] = chunkLoop es 45000 45000 [es]"
    by (subst chunkLoop.simps) (simp add: len)
  also have "\<dots> = Some [es]"
    by (subst chunkLoop.simps) (simp add: len)
  finally show ?thesis by (simp add: chunk_def)
qed

lemma chunkName_values:
  "chunkName 0 = ''sitemap-1.xml''" "chunkName 1 = ''sitemap-2.xml''" "chunkName 2 = ''sitemap-3.xml''"
  by code_simp+

lemma writeSitemaps_three:
  "writeSitemaps baseUrl [a, b, c] =
     [\<lparr>file_name = ''sitemap-1.xml'', file_content = buildSitemapXml a\<rparr>,
      \<lparr>file_name = ''sitemap-2.xml'', file_content = buildSitemapXml b\<rparr>,
      \<lparr>file_name = ''sitemap-3.xml'', file_content = buildSitemapXml c\<rparr>,
      \<lparr>file_name = ''sitemap.xml'',
       file_content = buildSitemapIndexXml
         [sitemapIndexEntry baseUrl 0, sitemapIndexEntry baseUrl 1, sitemapIndexEntry baseUrl 2]\<rparr>]"
proof -
  have u: "[0 ..< 3] = [0, 1, 2::nat]" by code_simp
  have e: "enumerate 0 [a, b, c] = [(0, a), (1, b), (2, c)]" by (simp add: enumerate_eq_zip u)
  have l: "length [a, b, c] = 3" by simp
  show ?thesis
    unfolding writeSitemaps_def l e u
    using chunkName_values by simp
qed

text \<open>
  Claim C7. The sitemap is cut into files of at most 45000 URLs. With exactly 90001 indexable
  routes (after the removal of duplicate paths) three chunk files \<open>sitemap-1.xml\<close>,
  \<open>sitemap-2.xml\<close> and \<open>sitemap-3.xml\<close> are written, holding the first 45000 entries, the next 45000
  and the last one, and then a sitemap index under the canonical name \<open>sitemap.xml\<close> that lists
  the three. With 10 indexable routes the only file written is a plain \<open>sitemap.xml\<close> that
  holds all the entries.
\<close>

theorem sitemap_chunking:
  "(length (filter route_indexable (dedupeRoutes gathered)) = 90001 \<longrightarrow>
      generateSitemapFiles isoDate baseUrl gathered =
        Some [\<lparr>file_name = ''sitemap-1.xml'', file_content = buildSitemapXml
                 (take 45000 (buildSitemapEntries isoDate baseUrl (filter route_indexable (dedupeRoutes gathered))))\<rparr>,
              \<lparr>file_name = ''sitemap-2.xml'', file_content = buildSitemapXml
                 (take 45000 (drop 45000 (buildSitemapEntries isoDate baseUrl (filter route_indexable (dedupeRoutes gathered)))))\<rparr>,
              \<lparr>file_name = ''sitemap-3.xml'', file_content = buildSitemapXml
                 (drop 90000 (buildSitemapEntries isoDate baseUrl (filter route_indexable (dedupeRoutes gathered))))\<rparr>,
              \<lparr>file_name = ''sitemap.xml'', file_content = buildSitemapIndexXml
                 [sitemapIndexEntry baseUrl 0, sitemapIndexEntry baseUrl 1, sitemapIndexEntry baseUrl 2]\<rparr>]
      \<and> length (take 45000 (buildSitemapEntries isoDate baseUrl (filter route_indexable (dedupeRoutes gathered)))) = 45000
      \<and> length (take 45000 (drop 45000 (buildSitemapEntries isoDate baseUrl (filter route_indexable (dedupeRoutes gathered))))) = 45000
      \<and> length (drop 90000 (buildSitemapEntries isoDate baseUrl (filter route_indexable (dedupeRoutes gathered)))) = 1)
   \<and> (length (filter route_indexable (dedupeRoutes gathered)) = 10 \<longrightarrow>
      generateSitemapFiles isoDate baseUrl gathered =
        Some [\<lparr>file_name = ''sitemap.xml'', file_content = buildSitemapXml
                 (buildSitemapEntries isoDate baseUrl (filter route_indexable (dedupeRoutes gathered)))\<rparr>])"
proof (intro conjI impI)
  let ?es = "buildSitemapEntries isoDate baseUrl (filter route_indexable (dedupeRoutes gathered))"
  {
    assume "length (filter route_indexable (dedupeRoutes gathered)) = 90001"
    then have len: "length ?es = 90001" by (simp add: buildSitemapEntries_def)
    show "generateSitemapFiles isoDate baseUrl gathered =
        Some [\<lparr>file_name = ''sitemap-1.xml'', file_content = buildSitemapXml (take 45000 ?es)\<rparr>,
              \<lparr>file_name = ''sitemap-2.xml'', file_content = buildSitemapXml (take 45000 (drop 45000 ?es))\<rparr>,
              \<lparr>file_name = ''sitemap-3.xml'', file_content = buildSitemapXml (drop 90000 ?es)\<rparr>,
              \<lparr>file_name = ''sitemap.xml'', file_content = buildSitemapIndexXml
                 [sitemapIndexEntry baseUrl 0, sitemapIndexEntry baseUrl 1, sitemapIndexEntry baseUrl 2]\<rparr>]"
      by (simp add: generateSitemapFiles_def Let_def MAX_URLS_PER_SITEMAP_def chunk_three [OF len]
            writeSitemaps_three)
    show "length (take 45000 ?es) = 45000" using len by simp
    show "length (take 45000 (drop 45000 ?es)) = 45000" using len by simp
    show "length (drop 90000 ?es) = 1" using len by simp
  }
  {
    assume "length (filter route_indexable (dedupeRoutes gathered)) = 10"
    then have len: "length ?es = 10" by (simp add: buildSitemapEntries_def)
    show "generateSitemapFiles isoDate baseUrl gathered =
        Some [\<lparr>file_name = ''sitemap.xml'', file_content = buildSitemapXml ?es\<rparr>]"
      by (simp add: generateSitemapFiles_def Let_def MAX_URLS_PER_SITEMAP_def chunk_one [OF len]
            writeSitemaps_def)
  }
qed

theorem sitemap_chunking_witness:
  "length (filter route_indexable (dedupeRoutes (map sampleRoute [0 ..< 90001]))) = 90001
   \<and> map file_name (the (generateSitemapFiles (\<lambda>d. None) ''https://example.com'' (map sampleRoute [0 ..< 90001])))
       = [''sitemap-1.xml'', ''sitemap-2.xml'', ''sitemap-3.xml'', ''sitemap.xml'']
   \<and> length (filter route_indexable (dedupeRoutes (map sampleRoute [0 ..< 10]))) = 10
   \<and> map file_name (the (generateSitemapFiles (\<lambda>d. None) ''https://example.com'' (map sampleRoute [0 ..< 10])))
       = [''sitemap.xml'']"
proof -
  have a: "length (filter route_indexable (dedupeRoutes (map sampleRoute [0 ..< 90001]))) = 90001"
    by (simp only: sampleRoutes_indexable length_map length_upt)
  have b: "length (filter route_indexable (dedupeRoutes (map sampleRoute [0 ..< 10]))) = 10"
    by (simp only: sampleRoutes_indexable length_map length_upt)
  from a b sitemap_chunking [of "map sampleRoute [0 ..< 90001]" "\<lambda>d. None" "''https://example.com''"]
    sitemap_chunking [of "map sampleRoute [0 ..< 10]" "\<lambda>d. None" "''https://example.com''"]
  show ?thesis by simp
qed

section \<open>Sections start at depth-2 headings\<close>

lemma sectionsLoop_no_start:
  "\<forall>t \<in> set pre. \<not> isSectionStart t \<Longrightarrow> sectionsLoop (pre @ ts) sections None = sectionsLoop ts sections None"
  by (induction pre) (auto simp: isSectionStart_def)

lemma split_at_first_start: "ts = takeWhile (\<lambda>t. \<not> isSectionStart t) ts @ dropWhile (\<lambda>t. \<not> isSectionStart t) ts"
  by simp

lemma buildSections_dropWhile:
  "buildSectionsFromTokens ts = buildSectionsFromTokens (dropWhile (\<lambda>t. \<not> isSectionStart t) ts)"
proof -
  have "\<forall>t \<in> set (takeWhile (\<lambda>t. \<not> isSectionStart t) ts). \<not> isSectionStart t"
    using set_takeWhileD by fastforce
  from sectionsLoop_no_start [OF this, of "dropWhile (\<lambda>t. \<not> isSectionStart t) ts" "[]"]
  show ?thesis unfolding buildSectionsFromTokens_def by simp
qed

lemma tokensOf_push: "tokensOf (pushCurrent sections current) None = tokensOf sections current"
  by (cases current) (auto simp: tokensOf_def pushCurrent_def)

lemma sectionsLoop_tokens:
  "tokensOf (sectionsLoop ts sections current) None \<subseteq> tokensOf sections current \<union> set ts"
proof (induction ts arbitrary: sections current)
  case Nil
  then show ?case by (simp add: tokensOf_push)
next
  case (Cons t ts)
  show ?case
  proof (cases "isHeadingToken t \<and> tok_depth t = 2")
    case True
    have "tokensOf (pushCurrent sections current)
            (Some \<lparr>sec_heading = orEmpty (tok_text t), sec_tokens = [], sec_raw = []\<rparr>)
          = tokensOf sections current"
      using tokensOf_push [of sections current] by (simp add: tokensOf_def)
    with Cons.IH [of "pushCurrent sections current"
        "Some \<lparr>sec_heading = orEmpty (tok_text t), sec_tokens = [], sec_raw = []\<rparr>"] True
    show ?thesis by auto
  next
    case False
    show ?thesis
    proof (cases current)
      case None
      with Cons.IH [of sections None] False show ?thesis by auto
    next
      case (Some c)
      have "tokensOf sections (Some (c\<lparr>sec_tokens := sec_tokens c @ [t], sec_raw := sec_raw c @ orEmpty (tok_raw t)\<rparr>))
            = tokensOf sections current \<union> {t}"
        using Some by (auto simp: tokensOf_def)
      with Cons.IH [of sections
          "Some (c\<lparr>sec_tokens := sec_tokens c @ [t], sec_raw := sec_raw c @ orEmpty (tok_raw t)\<rparr>)"]
        False Some
      show ?thesis by auto
    qed
  qed
qed

lemma section_tokens_after_start:
  assumes "s \<in> set (buildSectionsFromTokens ts)"
  shows "set (sec_tokens s) \<subseteq> set (drop 1 (dropWhile (\<lambda>t. \<not> isSectionStart t) ts))"
proof (cases "dropWhile (\<lambda>t. \<not> isSectionStart t) ts")
  case Nil
  with assms buildSections_dropWhile [of ts] show ?thesis
    by (simp add: buildSectionsFromTokens_def pushCurrent_def)
next
  case (Cons h rest)
  then have "isSectionStart h" using hd_dropWhile [of "\<lambda>t. \<not> isSectionStart t" ts] by simp
  then have "buildSectionsFromTokens (h # rest)
      = sectionsLoop rest [] (Some \<lparr>sec_heading = orEmpty (tok_text h), sec_tokens = [], sec_raw = []\<rparr>)"
    by (simp add: buildSectionsFromTokens_def isSectionStart_def pushCurrent_def)
  with assms buildSections_dropWhile [of ts] Cons
  have "s \<in> set (sectionsLoop rest [] (Some \<lparr>sec_heading = orEmpty (tok_text h), sec_tokens = [], sec_raw = []\<rparr>))"
    by simp
  then have "set (sec_tokens s) \<subseteq> tokensOf (sectionsLoop rest []
      (Some \<lparr>sec_heading = orEmpty (tok_text h), sec_tokens = [], sec_raw = []\<rparr>)) None"
    by (auto simp: tokensOf_def)
  also have "\<dots> \<subseteq> tokensOf [] (Some \<lparr>sec_heading = orEmpty (tok_text h), sec_tokens = [], sec_raw = []\<rparr>) \<union> set rest"
    by (rule sectionsLoop_tokens)
  also have "\<dots> = set rest" by (simp add: tokensOf_def)
  finally show ?thesis using Cons by simp
qed

text \<open>
  Claim C10. For every token stream, the sections of \<open>buildSectionsFromTokens\<close> are those of
  the stream from its first depth-2 heading on, and every token of a section stands after that
  heading: what comes before the first depth-2 heading (the title, the description and any
  other body content) belongs to no section. Hence the fields that the two parsers fill from
  the sections (steps, pricing, trust, FAQs, CTA, links, features and extra sections) are the
  same when the tokens before the first depth-2 heading are taken away.
\<close>

theorem sections_start_at_depth2_heading:
  "buildSectionsFromTokens ts = buildSectionsFromTokens (dropWhile (\<lambda>t. \<not> isSectionStart t) ts)
   \<and> (\<forall>s \<in> set (buildSectionsFromTokens ts).
         set (sec_tokens s) \<subseteq> set (drop 1 (dropWhile (\<lambda>t. \<not> isSectionStart t) ts)))
   \<and> map_sum id sectionFields (parseMarkdownContent lexer markdown)
       = map_sum id sectionFields
           (parseMarkdownContent (\<lambda>body. dropWhile (\<lambda>t. \<not> isSectionStart t) (lexer body)) markdown)
   \<and> sectionFields (parseMarketingMarkdown lexer markdown)
       = sectionFields (parseMarketingMarkdown (\<lambda>body. dropWhile (\<lambda>t. \<not> isSectionStart t) (lexer body)) markdown)"
proof (intro conjI ballI)
  show "buildSectionsFromTokens ts = buildSectionsFromTokens (dropWhile (\<lambda>t. \<not> isSectionStart t) ts)"
    by (rule buildSections_dropWhile)
next
  fix s
  assume "s \<in> set (buildSectionsFromTokens ts)"
  then show "set (sec_tokens s) \<subseteq> set (drop 1 (dropWhile (\<lambda>t. \<not> isSectionStart t) ts))"
    by (rule section_tokens_after_start)
next
  have e: "buildSectionsFromTokens (dropWhile (\<lambda>t. \<not> isSectionStart t) (lexer b)) = buildSectionsFromTokens (lexer b)"
    for b using buildSections_dropWhile [of "lexer b"] by simp
  show "map_sum id sectionFields (parseMarkdownContent lexer markdown)
       = map_sum id sectionFields
           (parseMarkdownContent (\<lambda>body. dropWhile (\<lambda>t. \<not> isSectionStart t) (lexer body)) markdown)"
    by (simp add: parseMarkdownContent_def parseTokensForSummary_def Let_def e sectionFields_def
          split: sum.splits)
  show "sectionFields (parseMarketingMarkdown lexer markdown)
       = sectionFields (parseMarketingMarkdown (\<lambda>body. dropWhile (\<lambda>t. \<not> isSectionStart t) (lexer body)) markdown)"
    by (simp add: parseMarketingMarkdown_def parseTokensForSummary_def Let_def e sectionFields_def)
qed

theorem sections_start_at_depth2_heading_witness:
  "buildSectionsFromTokens sampleTokens =
     [\<lparr>sec_heading = ''Notes'',
       sec_tokens = [\<lparr>tok_type = ''paragraph'', tok_depth = 0, tok_text = Some ''Kept.'', tok_raw = Some ''Kept.'', tok_items = []\<rparr>],
       sec_raw = ''Kept.''\<rparr>]
   \<and> set (sec_tokens (hd (buildSectionsFromTokens sampleTokens)))
       \<subseteq> set (drop 1 (dropWhile (\<lambda>t. \<not> isSectionStart t) sampleTokens))
   \<and> pm_extraSections (parseMarketingMarkdown (\<lambda>body. sampleTokens) [])
       = Some [\<lparr>section_heading = ''Notes'', section_markdown = ''Kept.''\<rparr>]"
proof -
  have v: "buildSectionsFromTokens sampleTokens =
     [\<lparr>sec_heading = ''Notes'',
       sec_tokens = [\<lparr>tok_type = ''paragraph'', tok_depth = 0, tok_text = Some ''Kept.'', tok_raw = Some ''Kept.'', tok_items = []\<rparr>],
       sec_raw = ''Kept.''\<rparr>]"
    by code_simp
  have w: "pm_extraSections (parseMarketingMarkdown (\<lambda>body. sampleTokens) [])
       = Some [\<lparr>section_heading = ''Notes'', section_markdown = ''Kept.''\<rparr>]"
    by code_simp
  from sections_start_at_depth2_heading [of sampleTokens "\<lambda>body. sampleTokens" "[]"]
  have b: "\<forall>s \<in> set (buildSectionsFromTokens sampleTokens).
      set (sec_tokens s) \<subseteq> set (drop 1 (dropWhile (\<lambda>t. \<not> isSectionStart t) sampleTokens))"
    by blast
  have "hd (buildSectionsFromTokens sampleTokens) \<in> set (buildSectionsFromTokens sampleTokens)"
    unfolding v by simp
  with b have "set (sec_tokens (hd (buildSectionsFromTokens sampleTokens)))
      \<subseteq> set (drop 1 (dropWhile (\<lambda>t. \<not> isSectionStart t) sampleTokens))"
    by blast
  with v w show ?thesis by blast
qed

section \<open>Delivery negotiation\<close>

lemma accept_html: "isMarkdownAccept (Some ''text/html'') = False"
  by code_simp

text \<open>
  Claim C8. When the normalised request path ends in the configured markdown extension and the
  path without the extension is indexable and resolves to a content, \<open>maybeRenderMarkdown\<close>
  returns the response with status 200, the headers \<open>Content-Type: text/markdown; charset=utf-8\<close>
  and \<open>Vary: Accept\<close> and the rendered content as its body, whatever the two negotiation toggles
  and the Accept header are (so also with both toggles off and no Accept header). When the
  path does not end in the extension, the Accept header is \<open>text/html\<close> and the query-parameter
  negotiation is off, it returns no response.
\<close>

theorem delivery_negotiation:
  "(suffix (extension config) (normalizePath (req_url request))
      \<and> isIndexable (stripMarkdownExtension (normalizePath (req_url request)) (extension config))
      \<and> resolveContent (stripMarkdownExtension (normalizePath (req_url request)) (extension config)) = Some content
    \<longrightarrow> maybeRenderMarkdown config request isIndexable resolveContent =
          Some \<lparr>res_status = 200,
                res_headers = [(''Content-Type'', ''text/markdown; charset=utf-8''), (''Vary'', ''Accept'')],
                res_body = renderSeoMarkdown (content\<lparr>pc_markdownPath := Some (markdownAlternate content)\<rparr>)\<rparr>)
   \<and> (\<not> suffix (extension config) (normalizePath (req_url request))
      \<and> req_accept request = Some ''text/html'' \<and> \<not> enableQueryParam config
    \<longrightarrow> maybeRenderMarkdown config request isIndexable resolveContent = None)"
  by (simp add: maybeRenderMarkdown_def isMarkdownRequest_def Let_def markdownAlternate_def accept_html)

theorem delivery_negotiation_witness:
  "maybeRenderMarkdown \<lparr>enableAcceptNegotiation = False, enableQueryParam = False, extension = ''.md''\<rparr>
      \<lparr>req_url = ''/pricing.md'', req_accept = None, req_format = None\<rparr>
      (\<lambda>p. p = ''/pricing'') (\<lambda>p. if p = ''/pricing'' then Some samplePage else None)
    = Some \<lparr>res_status = 200,
            res_headers = [(''Content-Type'', ''text/markdown; charset=utf-8''), (''Vary'', ''Accept'')],
            res_body = renderSeoMarkdown (samplePage\<lparr>pc_markdownPath := Some ''/pricing.md''\<rparr>)\<rparr>
   \<and> maybeRenderMarkdown \<lparr>enableAcceptNegotiation = True, enableQueryParam = False, extension = ''.md''\<rparr>
      \<lparr>req_url = ''/pricing'', req_accept = Some ''text/html'', req_format = Some ''md''\<rparr>
      (\<lambda>p. p = ''/pricing'') (\<lambda>p. if p = ''/pricing'' then Some samplePage else None)
    = None"
proof -
  have n1: "normalizePath ''/pricing.md'' = ''/pricing.md''" by code_simp
  have n2: "normalizePath ''/pricing'' = ''/pricing''" by code_simp
  have s1: "stripMarkdownExtension ''/pricing.md'' ''.md'' = ''/pricing''" by code_simp
  have x1: "suffix ''.md'' ''/pricing.md''" by code_simp
  have x2: "\<not> suffix ''.md'' ''/pricing''" by code_simp
  have m: "markdownAlternate samplePage = ''/pricing.md''" by code_simp
  from delivery_negotiation [of "\<lparr>enableAcceptNegotiation = False, enableQueryParam = False, extension = ''.md''\<rparr>"
      "\<lparr>req_url = ''/pricing.md'', req_accept = None, req_format = None\<rparr>"
      "\<lambda>p. p = ''/pricing''" "\<lambda>p. if p = ''/pricing'' then Some samplePage else None" samplePage]
  have a: "maybeRenderMarkdown \<lparr>enableAcceptNegotiation = False, enableQueryParam = False, extension = ''.md''\<rparr>
      \<lparr>req_url = ''/pricing.md'', req_accept = None, req_format = None\<rparr>
      (\<lambda>p. p = ''/pricing'') (\<lambda>p. if p = ''/pricing'' then Some samplePage else None)
    = Some \<lparr>res_status = 200,
            res_headers = [(''Content-Type'', ''text/markdown; charset=utf-8''), (''Vary'', ''Accept'')],
            res_body = renderSeoMarkdown (samplePage\<lparr>pc_markdownPath := Some ''/pricing.md''\<rparr>)\<rparr>"
    by (simp add: n1 s1 x1 m)
  from delivery_negotiation [of "\<lparr>enableAcceptNegotiation = True, enableQueryParam = False, extension = ''.md''\<rparr>"
      "\<lparr>req_url = ''/pricing'', req_accept = Some ''text/html'', req_format = Some ''md''\<rparr>"
      "\<lambda>p. p = ''/pricing''" "\<lambda>p. if p = ''/pricing'' then Some samplePage else None" samplePage]
  have b: "maybeRenderMarkdown \<lparr>enableAcceptNegotiation = True, enableQueryParam = False, extension = ''.md''\<rparr>
      \<lparr>req_url = ''/pricing'', req_accept = Some ''text/html'', req_format = Some ''md''\<rparr>
      (\<lambda>p. p = ''/pricing'') (\<lambda>p. if p = ''/pricing'' then Some samplePage else None)
    = None"
    by (simp add: n2 x2)
  from a b show ?thesis by simp
qed

section \<open>Heading and title\<close>






section \<open>The CTA of the metadata and the CTA of a section\<close>

lemma cta_headings_apart:
  "x \<in> set CTA_HEADINGS \<Longrightarrow>
     x \<notin> set STEPS_HEADINGS \<and> x \<noteq> ''pricing'' \<and> x \<notin> set TRUST_HEADINGS \<and> x \<noteq> ''resources''
     \<and> x \<notin> set RELATED_HEADINGS \<and> x \<notin> set CONTENT_FAQ_HEADINGS \<and> x \<notin> set CONTENT_FEATURE_HEADINGS
     \<and> x \<notin> set MARKETING_FAQ_HEADINGS \<and> x \<notin> set MARKETING_FEATURE_HEADINGS"
  by (auto simp: CTA_HEADINGS_def STEPS_HEADINGS_def TRUST_HEADINGS_def RELATED_HEADINGS_def
        CONTENT_FAQ_HEADINGS_def CONTENT_FEATURE_HEADINGS_def MARKETING_FAQ_HEADINGS_def
        MARKETING_FEATURE_HEADINGS_def)

lemma sectionStep_cta:
  assumes "\<And>x. x \<in> set CTA_HEADINGS \<Longrightarrow> x \<notin> set faqHeadings \<and> x \<notin> set featureHeadings"
  shows "st_cta (sectionStep faqHeadings featureHeadings headingOf s st) =
     (if normalizeHeading (sec_heading s) \<in> set CTA_HEADINGS
      then (case parseCta s of None \<Rightarrow> st_cta st | Some c \<Rightarrow> Some c)
      else st_cta st)"
proof (cases "normalizeHeading (sec_heading s) \<in> set CTA_HEADINGS")
  case True
  with assms cta_headings_apart [OF True] show ?thesis
    by (simp add: sectionStep_def Let_def split: option.splits)
next
  case False
  then show ?thesis
    by (simp add: sectionStep_def Let_def split: option.splits)
qed

lemma fold_sectionStep_cta:
  assumes "\<And>x. x \<in> set CTA_HEADINGS \<Longrightarrow> x \<notin> set faqHeadings \<and> x \<notin> set featureHeadings"
  shows "st_cta (fold (sectionStep faqHeadings featureHeadings headingOf) sections st) =
     (if sectionCtas sections = [] then st_cta st else Some (last (sectionCtas sections)))"
proof (induction sections arbitrary: st)
  case Nil
  then show ?case by (simp add: sectionCtas_def)
next
  case (Cons s sections)
  have c: "sectionCtas (s # sections) =
      (if normalizeHeading (sec_heading s) \<in> set CTA_HEADINGS
       then (case parseCta s of None \<Rightarrow> sectionCtas sections | Some c \<Rightarrow> c # sectionCtas sections)
       else sectionCtas sections)"
    by (simp add: sectionCtas_def List.map_filter_simps split: option.splits)
  have "st_cta (fold (sectionStep faqHeadings featureHeadings headingOf) (s # sections) st)
      = st_cta (fold (sectionStep faqHeadings featureHeadings headingOf) sections
          (sectionStep faqHeadings featureHeadings headingOf s st))"
    by simp
  also have "\<dots> = (if sectionCtas sections = []
      then st_cta (sectionStep faqHeadings featureHeadings headingOf s st)
      else Some (last (sectionCtas sections)))"
    by (rule Cons.IH)
  finally show ?case
    using sectionStep_cta [OF assms, of headingOf s st] c
    by (simp split: option.splits)
qed

lemma classifySections_cta:
  assumes "\<And>x. x \<in> set CTA_HEADINGS \<Longrightarrow> x \<notin> set faqHeadings \<and> x \<notin> set featureHeadings"
  shows "st_cta (classifySections faqHeadings featureHeadings headingOf sections) =
     (if sectionCtas sections = [] then None else Some (last (sectionCtas sections)))"
  using fold_sectionStep_cta [OF assms, of headingOf sections initialSectionState]
  by (simp add: classifySections_def initialSectionState_def)

text \<open>
  Claim C5, as amended. In both dialects, when the metadata gives a CTA label and a CTA target
  that are not empty (the label stripped of markdown, the target trimmed), the CTA of the parse
  result is the CTA built from the metadata exactly when no section under a CTA heading
  yields a CTA, that is when none of them holds a markdown link; otherwise it is the CTA
  extracted from the last such section that holds a link. (With \<open>parseMarkdownContent\<close> the
  statement is about the inputs on which it returns.)
\<close>

theorem cta_precedence:
  "(parseMarkdownContent lexer markdown = Inr p
      \<and> cta_label (contentMetaCta (pm_meta p)) \<noteq> [] \<and> cta_href (contentMetaCta (pm_meta p)) \<noteq> []
     \<longrightarrow> pm_cta p =
          (if sectionCtas (buildSectionsFromTokens (lexer (pm_body p))) = [] then Some (contentMetaCta (pm_meta p))
           else Some (last (sectionCtas (buildSectionsFromTokens (lexer (pm_body p)))))))
   \<and> (cta_label (marketingMetaCta (pm_meta (parseMarketingMarkdown lexer markdown))) \<noteq> []
      \<and> cta_href (marketingMetaCta (pm_meta (parseMarketingMarkdown lexer markdown))) \<noteq> []
     \<longrightarrow> pm_cta (parseMarketingMarkdown lexer markdown) =
          (if sectionCtas (buildSectionsFromTokens (lexer (pm_body (parseMarketingMarkdown lexer markdown)))) = []
           then Some (marketingMetaCta (pm_meta (parseMarketingMarkdown lexer markdown)))
           else Some (last (sectionCtas (buildSectionsFromTokens
                  (lexer (pm_body (parseMarketingMarkdown lexer markdown))))))))"
proof (intro conjI impI)
  assume a: "parseMarkdownContent lexer markdown = Inr p
      \<and> cta_label (contentMetaCta (pm_meta p)) \<noteq> [] \<and> cta_href (contentMetaCta (pm_meta p)) \<noteq> []"
  define meta where "meta = normalizeMeta (fst (contentMetaSource markdown))"
  define body where "body = snd (contentMetaSource markdown)"
  define st where "st = classifySections CONTENT_FAQ_HEADINGS CONTENT_FEATURE_HEADINGS defaultSectionHeading
      (buildSectionsFromTokens (lexer body))"
  from a have m: "pm_meta p = meta" and b: "pm_body p = body"
    and c: "pm_cta p = (if st_cta st = None \<and> cta_label (contentMetaCta meta) \<noteq> [] \<and> cta_href (contentMetaCta meta) \<noteq> []
                        then Some (contentMetaCta meta) else st_cta st)"
    unfolding meta_def body_def st_def
    by (auto simp: parseMarkdownContent_def parseTokensForSummary_def Let_def contentMetaCta_def
          split: sum.splits)
  have s: "st_cta st = (if sectionCtas (buildSectionsFromTokens (lexer body)) = [] then None
                        else Some (last (sectionCtas (buildSectionsFromTokens (lexer body)))))"
    unfolding st_def by (rule classifySections_cta) (use cta_headings_apart in blast)
  from a c s m b show "pm_cta p =
          (if sectionCtas (buildSectionsFromTokens (lexer (pm_body p))) = [] then Some (contentMetaCta (pm_meta p))
           else Some (last (sectionCtas (buildSectionsFromTokens (lexer (pm_body p))))))"
    by simp
next
  let ?p = "parseMarketingMarkdown lexer markdown"
  assume a: "cta_label (marketingMetaCta (pm_meta ?p)) \<noteq> [] \<and> cta_href (marketingMetaCta (pm_meta ?p)) \<noteq> []"
  define meta where "meta = normalizeMeta (fst (parseMetaBlock markdown))"
  define body where "body = snd (parseMetaBlock markdown)"
  define st where "st = classifySections MARKETING_FAQ_HEADINGS MARKETING_FEATURE_HEADINGS (\<lambda>heading. heading)
      (buildSectionsFromTokens (lexer body))"
  have m: "pm_meta ?p = meta" and b: "pm_body ?p = body"
    and c: "pm_cta ?p = (if st_cta st = None \<and> cta_label (marketingMetaCta meta) \<noteq> [] \<and> cta_href (marketingMetaCta meta) \<noteq> []
                        then Some (marketingMetaCta meta) else st_cta st)"
    unfolding meta_def body_def st_def
    by (simp_all add: parseMarketingMarkdown_def parseTokensForSummary_def Let_def marketingMetaCta_def)
  have s: "st_cta st = (if sectionCtas (buildSectionsFromTokens (lexer body)) = [] then None
                        else Some (last (sectionCtas (buildSectionsFromTokens (lexer body)))))"
    unfolding st_def by (rule classifySections_cta) (use cta_headings_apart in blast)
  from a c s m b show "pm_cta ?p =
          (if sectionCtas (buildSectionsFromTokens (lexer (pm_body ?p))) = [] then Some (marketingMetaCta (pm_meta ?p))
           else Some (last (sectionCtas (buildSectionsFromTokens (lexer (pm_body ?p))))))"
    by simp
qed

lemma linkless_content_parse:
  "parseMarkdownContent ctaLexer linklessCtaFrontMatter
     = Inr (parsedCta linklessBody \<lparr>cta_label = ''Go'', cta_href = ''/go'', cta_note = None\<rparr>)"
  by code_simp

lemma linkless_marketing_parse:
  "parseMarketingMarkdown ctaLexer linklessCtaMetaBlock
     = parsedCta linklessBody \<lparr>cta_label = ''Go'', cta_href = ''/go'', cta_note = None\<rparr>"
  by code_simp

lemma linked_content_parse:
  "parseMarkdownContent ctaLexer linkedCtaFrontMatter
     = Inr (parsedCta linkedBody \<lparr>cta_label = ''Send now'', cta_href = ''/start'', cta_note = Some ''Send now.''\<rparr>)"
  by code_simp

lemma ctaMeta_values:
  "contentMetaCta ctaMeta = \<lparr>cta_label = ''Go'', cta_href = ''/go'', cta_note = None\<rparr>"
  "marketingMetaCta ctaMeta = \<lparr>cta_label = ''Go'', cta_href = ''/go'', cta_note = None\<rparr>"
  by code_simp+

lemma sample_section_headings:
  "map (\<lambda>s. normalizeHeading (sec_heading s)) (buildSectionsFromTokens (ctaLexer linklessBody)) = [''cta'']"
  by code_simp

lemma sample_sectionCtas:
  "sectionCtas (buildSectionsFromTokens (ctaLexer linklessBody)) = []"
  "sectionCtas (buildSectionsFromTokens (ctaLexer linkedBody))
     = [\<lparr>cta_label = ''Send now'', cta_href = ''/start'', cta_note = Some ''Send now.''\<rparr>]"
  by code_simp+

theorem cta_precedence_witness:
  "parseMarkdownContent ctaLexer linkedCtaFrontMatter
     = Inr (parsedCta linkedBody \<lparr>cta_label = ''Send now'', cta_href = ''/start'', cta_note = Some ''Send now.''\<rparr>)
   \<and> contentMetaCta ctaMeta = \<lparr>cta_label = ''Go'', cta_href = ''/go'', cta_note = None\<rparr>
   \<and> sectionCtas (buildSectionsFromTokens (ctaLexer linkedBody))
       = [\<lparr>cta_label = ''Send now'', cta_href = ''/start'', cta_note = Some ''Send now.''\<rparr>]
   \<and> marketingMetaCta (pm_meta (parseMarketingMarkdown ctaLexer linklessCtaMetaBlock))
       = \<lparr>cta_label = ''Go'', cta_href = ''/go'', cta_note = None\<rparr>
   \<and> sectionCtas (buildSectionsFromTokens (ctaLexer (pm_body (parseMarketingMarkdown ctaLexer linklessCtaMetaBlock)))) = []
   \<and> pm_cta (parseMarketingMarkdown ctaLexer linklessCtaMetaBlock)
       = Some \<lparr>cta_label = ''Go'', cta_href = ''/go'', cta_note = None\<rparr>"
proof -
  let ?p = "parsedCta linkedBody \<lparr>cta_label = ''Send now'', cta_href = ''/start'', cta_note = Some ''Send now.''\<rparr>"
  let ?q = "parseMarketingMarkdown ctaLexer linklessCtaMetaBlock"
  have pm: "pm_meta ?p = ctaMeta" "pm_body ?p = linkedBody" by (simp_all add: parsedCta_def)
  have qm: "pm_meta ?q = ctaMeta" "pm_body ?q = linklessBody"
    by (simp_all add: linkless_marketing_parse parsedCta_def)
  from cta_precedence [of ctaLexer linkedCtaFrontMatter ?p] linked_content_parse
  have "pm_cta ?p = Some \<lparr>cta_label = ''Send now'', cta_href = ''/start'', cta_note = Some ''Send now.''\<rparr>"
    by (simp add: pm ctaMeta_values sample_sectionCtas)
  moreover from cta_precedence [of ctaLexer linklessCtaMetaBlock ?p]
  have "pm_cta ?q = Some \<lparr>cta_label = ''Go'', cta_href = ''/go'', cta_note = None\<rparr>"
    by (simp add: qm ctaMeta_values sample_sectionCtas)
  ultimately show ?thesis
    using linked_content_parse by (simp add: qm ctaMeta_values sample_sectionCtas)
qed

text \<open>
  Claim C5 as stated fails: the body of these two pages has a section whose normalised heading,
  \<open>cta\<close>, is in the CTA keyword set, and the CTA of the parse result is still the one built
  from the metadata, since the section holds no link.
\<close>

theorem cta_section_without_link_counterexample:
  "parseMarkdownContent ctaLexer linklessCtaFrontMatter
     = Inr (parsedCta linklessBody \<lparr>cta_label = ''Go'', cta_href = ''/go'', cta_note = None\<rparr>)
   \<and> parseMarketingMarkdown ctaLexer linklessCtaMetaBlock
     = parsedCta linklessBody \<lparr>cta_label = ''Go'', cta_href = ''/go'', cta_note = None\<rparr>
   \<and> contentMetaCta ctaMeta = \<lparr>cta_label = ''Go'', cta_href = ''/go'', cta_note = None\<rparr>
   \<and> marketingMetaCta ctaMeta = \<lparr>cta_label = ''Go'', cta_href = ''/go'', cta_note = None\<rparr>
   \<and> map (\<lambda>s. normalizeHeading (sec_heading s)) (buildSectionsFromTokens (ctaLexer linklessBody)) = [''cta'']
   \<and> ''cta'' \<in> set CTA_HEADINGS"
  using linkless_content_parse linkless_marketing_parse ctaMeta_values sample_section_headings
  by (simp add: CTA_HEADINGS_def)

section \<open>Route resolution\<close>










section \<open>Duplicate routes\<close>




lemma page_path_buildPage [simp]: "page_path (buildPage template item tokens routePath) = routePath"
  by (simp add: buildPage_def Let_def)








section \<open>The placement \<open>omit\<close> of \<open>llms.txt\<close>\<close>

lemma sublist_skip_char:
  assumes "c \<notin> set p" "p \<noteq> []"
  shows "sublist p (c # b) \<longleftrightarrow> sublist p b"
proof -
  from assms obtain x xs where "p = x # xs" "x \<noteq> c" by (cases p) auto
  then have "\<not> prefix p (c # b)" by simp
  then show ?thesis by (simp add: sublist_Cons_right)
qed

lemma sublist_split_char:
  assumes "c \<notin> set p" "p \<noteq> []"
  shows "sublist p (a @ c # b) \<longleftrightarrow> sublist p a \<or> sublist p b"
proof (induction a)
  case Nil
  from assms show ?case by (simp add: sublist_skip_char)
next
  case (Cons x a)
  have "prefix p (x # a @ c # b) \<longleftrightarrow> prefix p (x # a)"
  proof
    assume "prefix p (x # a @ c # b)"
    then have "prefix p ((x # a) @ c # b)" by simp
    then have "prefix p (x # a) \<or> (\<exists>us. p = (x # a) @ us \<and> prefix us (c # b))"
      unfolding prefix_append by blast
    then show "prefix p (x # a)"
    proof
      assume "\<exists>us. p = (x # a) @ us \<and> prefix us (c # b)"
      then obtain us where u: "p = (x # a) @ us" "prefix us (c # b)" by blast
      with assms(1) have "us = []" by (cases us) auto
      with u show ?thesis by simp
    qed
  next
    assume "prefix p (x # a)"
    then have "prefix p ((x # a) @ c # b)" by (rule prefix_prefix)
    then show "prefix p (x # a @ c # b)" by simp
  qed
  with Cons show ?case by (auto simp: sublist_Cons_right)
qed

lemma sublist_drop_last_char:
  assumes "c \<notin> set p" "p \<noteq> []"
  shows "sublist p (a @ [c]) \<longleftrightarrow> sublist p a"
  using sublist_split_char [OF assms, of a "[]"] assms(2) by simp

lemma sublist_joinWith:
  assumes "LF \<notin> set p" "p \<noteq> []" "sublist p (joinWith [LF] ls)"
  shows "\<exists>l \<in> set ls. sublist p l"
  using assms(3)
proof (induction ls)
  case Nil
  with assms(2) show ?case by simp
next
  case (Cons x ls)
  show ?case
  proof (cases ls)
    case Nil
    with Cons.prems show ?thesis by simp
  next
    case (Cons y ys)
    with Cons.prems have "sublist p (x @ LF # joinWith [LF] ls)" by simp
    with assms have "sublist p x \<or> sublist p (joinWith [LF] ls)"
      by (simp add: sublist_split_char)
    with Cons.IH show ?thesis by auto
  qed
qed

lemma sublist_chain: "sublist a b \<Longrightarrow> sublist b c \<Longrightarrow> sublist a c"
proof -
  assume "sublist a b" "sublist b c"
  then obtain p1 s1 p2 s2 where "b = p1 @ a @ s1" "c = p2 @ b @ s2" unfolding sublist_def by blast
  then have "c = (p2 @ p1) @ a @ (s1 @ s2)" by simp
  then show ?thesis unfolding sublist_def by blast
qed

lemma sublist_trim: "sublist (trim s) s"
proof -
  have a: "sublist (dropWhile isSpace s) s"
    by (rule suffix_imp_sublist) (rule suffix_dropWhile)
  have "prefix (rev (dropWhile isSpace (rev t))) t" for t
    using suffix_dropWhile [of isSpace "rev t"] by (simp add: suffix_to_prefix)
  then have "sublist (trimEnd (dropWhile isSpace s)) (dropWhile isSpace s)"
    unfolding trimEnd_def by (rule prefix_imp_sublist)
  then show ?thesis unfolding trim_def trimStart_def using a by (rule sublist_chain)
qed

lemma sublist_of_trim: "sublist p (trim s) \<Longrightarrow> sublist p s"
  by (rule sublist_chain [OF _ sublist_trim])


lemma header_line_text:
  assumes "p = ''Articles'' \<or> p = ''Human-friendly''"
    and "l \<in> set (headerLines config)" and "sublist p l"
  shows "\<exists>t \<in> set (llmsTexts config). sublist p t"
proof -
  from assms(1) have p: "p \<noteq> []" "CHR ''#'' \<notin> set p" "CHR '' '' \<notin> set p" "CHR ''>'' \<notin> set p"
    "CHR ''.'' \<notin> set p" "CHR '':'' \<notin> set p" "\<not> sublist p ''Contact''" "\<not> sublist p ''Capabilities''"
    "\<not> sublist p ''-''"
    by (auto simp: sublist_Cons_right)
  from assms(2) consider
      "l = ''# '' @ llmsTitle config"
    | "l = ''> '' @ orEmpty (llmsSummary config)"
    | "l = []"
    | "l = ''Contact: '' @ orEmpty (llmsContact config) @ ''.''"
    | "l = ''## Capabilities''"
    | c where "c \<in> set (itemsOf (llmsCapabilities config))" "l = ''- '' @ c"
    by (auto simp: headerLines_def split: if_splits)
  then show ?thesis
  proof cases
    case 1
    with assms(3) p have "sublist p (llmsTitle config)" by (simp add: sublist_skip_char)
    then show ?thesis by (auto simp: llmsTexts_def)
  next
    case 2
    with assms(3) p have "sublist p (orEmpty (llmsSummary config))" by (simp add: sublist_skip_char)
    then show ?thesis by (auto simp: llmsTexts_def)
  next
    case 3
    with assms(3) p show ?thesis by simp
  next
    case 4
    with assms(3) have "sublist p (''Contact:'' @ CHR '' '' # (orEmpty (llmsContact config) @ ''.''))" by simp
    with p have "sublist p ''Contact:'' \<or> sublist p (orEmpty (llmsContact config) @ ''.'')"
      using sublist_split_char [of "CHR '' ''" p "''Contact:''"] by blast
    moreover have "\<not> sublist p ''Contact:''"
      using sublist_drop_last_char [of "CHR '':''" p "''Contact''"] p by simp
    ultimately have "sublist p (orEmpty (llmsContact config))"
      using sublist_drop_last_char [of "CHR ''.''" p] p by simp
    then show ?thesis by (auto simp: llmsTexts_def)
  next
    case 5
    with assms(3) p show ?thesis by (simp add: sublist_skip_char)
  next
    case 6
    with assms(3) have "sublist p (''-'' @ CHR '' '' # c)" by simp
    with p have "sublist p c" using sublist_split_char [of "CHR '' ''" p "''-''" c] by blast
    with 6 show ?thesis by (auto simp: llmsTexts_def)
  qed
qed

lemma link_line_text:
  assumes "p = ''Articles'' \<or> p = ''Human-friendly''"
    and "sublist p (buildMarkdownLink label href)"
  shows "sublist p label \<or> sublist p href"
proof -
  from assms(1) have p: "p \<noteq> []" "CHR ''['' \<notin> set p" "CHR '']'' \<notin> set p" "CHR ''('' \<notin> set p"
    "CHR '')'' \<notin> set p" "\<not> sublist p ''- ''"
    by (auto simp: sublist_Cons_right)
  from assms(2) have "sublist p (''- '' @ CHR ''['' # (label @ CHR '']'' # CHR ''('' # (href @ '')'')))"
    by (simp add: buildMarkdownLink_def)
  with p have "sublist p (label @ CHR '']'' # CHR ''('' # (href @ '')''))"
    using sublist_split_char [of "CHR ''[''" p "''- ''"] by blast
  with p have "sublist p label \<or> sublist p (CHR ''('' # (href @ '')''))"
    using sublist_split_char [of "CHR '']''" p label] by blast
  with p show ?thesis
    using sublist_skip_char [of "CHR ''(''" p] sublist_drop_last_char [of "CHR '')''" p href] by auto
qed

lemma section_line_text:
  assumes "p = ''Articles'' \<or> p = ''Human-friendly''"
    and "l \<in> set (sectionBlockLines section)" and "sublist p l"
  shows "\<exists>t \<in> set (sectionTexts section). sublist p t"
proof -
  from assms(1) have p: "p \<noteq> []" "CHR ''#'' \<notin> set p" "CHR '' '' \<notin> set p"
    by auto
  from assms(2) consider
      "l = ''## '' @ ls_heading section"
    | "l \<in> set (itemsOf (ls_description section))"
    | link where "link \<in> set (ls_links section)" "l = buildMarkdownLink (link_label link) (link_href link)"
    | "l = []"
    by (auto simp: sectionBlockLines_def buildSectionLines_def split: if_splits)
  then show ?thesis
  proof cases
    case 1
    with assms(3) p have "sublist p (ls_heading section)" by (simp add: sublist_skip_char)
    then show ?thesis by (simp add: sectionTexts_def)
  next
    case 2
    with assms(3) show ?thesis by (auto simp: sectionTexts_def)
  next
    case 3
    with assms(3) link_line_text [OF assms(1)]
    have "sublist p (link_label link) \<or> sublist p (link_href link)" by simp
    with 3 show ?thesis by (auto simp: sectionTexts_def)
  next
    case 4
    with assms(3) p show ?thesis by simp
  qed
qed

lemma buildLlmsTxt_omit:
  assumes "llms_articlesPlacement config = Some Omit" "\<not> truthy (llms_template config)"
  shows "buildLlmsTxt config baseUrl articleLinks = trim (joinWith [LF] (omitLines config)) @ [LF]"
  using assms by (simp add: buildLlmsTxt_def orderedSections_def omitLines_def Let_def)

lemma omit_line_text:
  assumes "p = ''Articles'' \<or> p = ''Human-friendly''"
    and "l \<in> set (headerLines config @ concat (map sectionBlockLines (itemsOf (llms_sections config))))"
    and "sublist p l"
  shows "\<exists>t \<in> set (llmsTexts config). sublist p t"
proof -
  from assms(2) consider "l \<in> set (headerLines config)"
    | block where "block \<in> set (itemsOf (llms_sections config))" "l \<in> set (sectionBlockLines block)"
    by auto
  then show ?thesis
  proof cases
    case 1
    from header_line_text [OF assms(1) this assms(3)] show ?thesis .
  next
    case 2
    from section_line_text [OF assms(1) 2(2) assms(3)] obtain t where
      "t \<in> set (sectionTexts block)" "sublist p t" by blast
    with 2(1) show ?thesis by (auto simp: llmsTexts_def)
  qed
qed

lemma joinWith_snoc: "xs \<noteq> [] \<Longrightarrow> joinWith sep (xs @ [y]) = joinWith sep xs @ sep @ y"
proof (induction xs)
  case Nil
  then show ?case by simp
next
  case (Cons x xs)
  then show ?case by (cases xs) simp_all
qed

lemma trim_keeps_suffix:
  assumes "f \<noteq> []" "\<not> isSpace (hd f)" "\<not> isSpace (last f)"
  shows "suffix f (trim (a @ f))"
proof -
  have "\<exists>b. dropWhile isSpace (a @ f) = b @ f"
  proof (cases "\<forall>x \<in> set a. isSpace x")
    case True
    then have "dropWhile isSpace (a @ f) = dropWhile isSpace f" by (simp add: dropWhile_append2)
    also from assms have "\<dots> = f" by (cases f) simp_all
    finally show ?thesis by simp
  next
    case False
    then obtain x where "x \<in> set a" "\<not> isSpace x" by blast
    then have "dropWhile isSpace (a @ f) = dropWhile isSpace a @ f" by (rule dropWhile_append1)
    then show ?thesis by blast
  qed
  then obtain b where b: "dropWhile isSpace (a @ f) = b @ f" by blast
  from assms have "dropWhile isSpace (rev f @ rev b) = rev f @ rev b"
    by (cases "rev f") (auto simp: last_rev [symmetric] hd_rev)
  then have "trim (a @ f) = b @ f" by (simp add: trim_def trimStart_def trimEnd_def b)
  then show ?thesis by (simp add: suffix_def)
qed

lemma footer_facts:
  "defaultFooter \<noteq> []" "\<not> isSpace (hd defaultFooter)" "\<not> isSpace (last defaultFooter)"
  "LF \<notin> set defaultFooter" "sublist ''Human-friendly'' defaultFooter" "\<not> sublist ''Articles'' defaultFooter"
  by code_simp+

lemma headerLines_not_Nil: "headerLines config \<noteq> []"
  by (simp add: headerLines_def)

text \<open>
  Claim C3, as amended. With the placement \<open>omit\<close> and no template, \<open>buildLlmsTxt\<close> leaves the
  Articles block out: the output does not depend on the article links, and it holds no
  \<open>## Articles\<close> as long as no configured text holds the word \<open>Articles\<close>. The footer note
  follows the sections: when at least one free-form section is configured the output ends
  with the note, and when none is configured the output does not hold the note (as long as
  no configured text holds the word \<open>Human-friendly\<close>).
\<close>

theorem llms_omit:
  assumes "llms_articlesPlacement config = Some Omit" and "\<not> truthy (llms_template config)"
  shows "buildLlmsTxt config baseUrl articleLinks = buildLlmsTxt config baseUrl []
    \<and> ((\<forall>t \<in> set (llmsTexts config). \<not> sublist ''Articles'' t)
         \<longrightarrow> \<not> sublist ''## Articles'' (buildLlmsTxt config baseUrl articleLinks))
    \<and> (hasItems (llms_sections config)
         \<longrightarrow> suffix (defaultFooter @ [LF]) (buildLlmsTxt config baseUrl articleLinks))
    \<and> (\<not> hasItems (llms_sections config) \<and> (\<forall>t \<in> set (llmsTexts config). \<not> sublist ''Human-friendly'' t)
         \<longrightarrow> \<not> sublist defaultFooter (buildLlmsTxt config baseUrl articleLinks))"
proof (intro conjI impI)
  note out = buildLlmsTxt_omit [OF assms]
  let ?body = "headerLines config @ concat (map sectionBlockLines (itemsOf (llms_sections config)))"
  show "buildLlmsTxt config baseUrl articleLinks = buildLlmsTxt config baseUrl []"
    by (simp add: out)
  have line: "\<exists>l \<in> set (omitLines config). sublist p l"
    if "sublist p (buildLlmsTxt config baseUrl articleLinks)" "LF \<notin> set p" "p \<noteq> []" for p
  proof -
    from that have "sublist p (trim (joinWith [LF] (omitLines config)))"
      unfolding out by (simp add: sublist_drop_last_char)
    then have "sublist p (joinWith [LF] (omitLines config))" by (rule sublist_of_trim)
    with that show ?thesis by (simp add: sublist_joinWith)
  qed
  {
    assume texts: "\<forall>t \<in> set (llmsTexts config). \<not> sublist ''Articles'' t"
    show "\<not> sublist ''## Articles'' (buildLlmsTxt config baseUrl articleLinks)"
    proof
      assume "sublist ''## Articles'' (buildLlmsTxt config baseUrl articleLinks)"
      moreover have "sublist ''Articles'' ''## Articles''" by code_simp
      ultimately have "sublist ''Articles'' (buildLlmsTxt config baseUrl articleLinks)"
        by (rule sublist_chain [rotated])
      from line [OF this] obtain l where l: "l \<in> set (omitLines config)" "sublist ''Articles'' l"
        by auto
      from l(2) footer_facts(6) have "l \<noteq> defaultFooter" by auto
      with l(1) have "l \<in> set ?body" by (auto simp: omitLines_def split: if_splits)
      from omit_line_text [OF _ this l(2)] texts show False by blast
    qed
  }
  {
    assume "hasItems (llms_sections config)"
    then have o: "omitLines config = ?body @ [defaultFooter]" by (simp add: omitLines_def)
    have "?body \<noteq> []" using headerLines_not_Nil by simp
    then have "joinWith [LF] (?body @ [defaultFooter]) = joinWith [LF] ?body @ [LF] @ defaultFooter"
      by (rule joinWith_snoc)
    then have j: "joinWith [LF] (omitLines config) = (joinWith [LF] ?body @ [LF]) @ defaultFooter"
      unfolding o by simp
    have "suffix defaultFooter (trim (joinWith [LF] (omitLines config)))"
      unfolding j by (rule trim_keeps_suffix [OF footer_facts(1-3)])
    then show "suffix (defaultFooter @ [LF]) (buildLlmsTxt config baseUrl articleLinks)"
      unfolding out by simp
  }
  {
    assume a: "\<not> hasItems (llms_sections config) \<and> (\<forall>t \<in> set (llmsTexts config). \<not> sublist ''Human-friendly'' t)"
    show "\<not> sublist defaultFooter (buildLlmsTxt config baseUrl articleLinks)"
    proof
      assume "sublist defaultFooter (buildLlmsTxt config baseUrl articleLinks)"
      with footer_facts(5) have "sublist ''Human-friendly'' (buildLlmsTxt config baseUrl articleLinks)"
        by (rule sublist_chain)
      from line [OF this] obtain l where l: "l \<in> set (omitLines config)" "sublist ''Human-friendly'' l"
        by auto
      from l(1) a have "l \<in> set ?body" by (auto simp: omitLines_def)
      from omit_line_text [OF _ this l(2)] a show False by blast
    qed
  }
qed

lemma omit_samples:
  "llms_articlesPlacement (omitConfig sections) = Some Omit"
  "\<not> truthy (llms_template (omitConfig sections))"
  "llms_sections (omitConfig sections) = sections"
  by (simp_all add: omitConfig_def truthy_def)

lemma omit_sample_texts:
  "\<forall>t \<in> set (llmsTexts (omitConfig (Some [docsSection]))). \<not> sublist ''Articles'' t"
  "\<forall>t \<in> set (llmsTexts (omitConfig None)). \<not> sublist ''Articles'' t"
  "\<forall>t \<in> set (llmsTexts (omitConfig None)). \<not> sublist ''Human-friendly'' t"
  by code_simp+

theorem llms_omit_witness:
  "\<not> sublist ''## Articles'' (buildLlmsTxt (omitConfig (Some [docsSection])) ''https://example.com'' [])
   \<and> suffix (defaultFooter @ [LF]) (buildLlmsTxt (omitConfig (Some [docsSection])) ''https://example.com'' [])
   \<and> \<not> sublist ''## Articles'' (buildLlmsTxt (omitConfig None) ''https://example.com'' [])
   \<and> \<not> sublist defaultFooter (buildLlmsTxt (omitConfig None) ''https://example.com'' [])"
proof -
  note s = llms_omit [OF omit_samples(1,2), of "Some [docsSection]" "''https://example.com''" "[]"]
  note n = llms_omit [OF omit_samples(1,2), of None "''https://example.com''" "[]"]
  have h: "hasItems (Some [docsSection])" "\<not> hasItems (None :: LlmsSection list option)"
    by (simp_all add: hasItems_def)
  from s omit_sample_texts(1) h(1) omit_samples(3) [of "Some [docsSection]"]
  have a: "\<not> sublist ''## Articles'' (buildLlmsTxt (omitConfig (Some [docsSection])) ''https://example.com'' [])"
    "suffix (defaultFooter @ [LF]) (buildLlmsTxt (omitConfig (Some [docsSection])) ''https://example.com'' [])"
    by simp_all
  from n omit_sample_texts(2,3) h(2) omit_samples(3) [of None]
  have b: "\<not> sublist ''## Articles'' (buildLlmsTxt (omitConfig None) ''https://example.com'' [])"
    "\<not> sublist defaultFooter (buildLlmsTxt (omitConfig None) ''https://example.com'' [])"
    by simp_all
  from a b show ?thesis by simp
qed

text \<open>
  Claim C3 as stated fails: with the placement \<open>omit\<close>, no template and the one section
  \<open>Docs\<close>, the output ends with the footer note.
\<close>

theorem llms_omit_keeps_footer_counterexample:
  "llms_articlesPlacement (omitConfig (Some [docsSection])) = Some Omit
   \<and> llms_template (omitConfig (Some [docsSection])) = None
   \<and> buildLlmsTxt (omitConfig (Some [docsSection])) ''https://example.com'' []
       = ''# Acme'' @ [LF] @ ''> Guides for teams'' @ [LF, LF] @ ''## Docs'' @ [LF] @ ''- [Guide](/guide)'' @ [LF, LF]
         @ ''Human-friendly pages are the same paths without .md.'' @ [LF]
   \<and> sublist ''Human-friendly pages are the same paths without .md.''
        (buildLlmsTxt (omitConfig (Some [docsSection])) ''https://example.com'' [])"
  by code_simp

section \<open>Rendering and parsing again\<close>

lemma colonPage_meta:
  "metaStripped (normalizeMeta (fst (contentMetaSource (renderSeoMarkdown colonPage)))) ''title''
     = [CHR 0x22] @ ''Pricing: Plans'' @ [CHR 0x22]"
  "contentSeoTitle (normalizeMeta (fst (contentMetaSource (renderSeoMarkdown colonPage)))) = Inr []"
  by code_simp+

text \<open>
  Claim C1, at a page whose title holds a colon. \<open>renderSeoMarkdown\<close> writes such a title
  into the front matter between double quotes (\<open>escapeFrontMatterValue\<close>), \<open>parseFrontMatter\<close>
  keeps the value as it stands, and \<open>parseMarkdownContent\<close> prefers the title of the metadata
  to the one of the body: whatever the lexer returns for the body, the title that comes back
  is the title of the page between double quotes, not the title of the page.
\<close>

theorem round_trip_title_with_colon:
  "pc_title colonPage = ''Pricing: Plans''
   \<and> (\<exists>parsed. parseMarkdownContent lexer (renderSeoMarkdown colonPage) = Inr parsed
         \<and> pm_title parsed = [CHR 0x22] @ ''Pricing: Plans'' @ [CHR 0x22])"
proof
  show "pc_title colonPage = ''Pricing: Plans''" by (simp add: colonPage_def)
  show "\<exists>parsed. parseMarkdownContent lexer (renderSeoMarkdown colonPage) = Inr parsed
         \<and> pm_title parsed = [CHR 0x22] @ ''Pricing: Plans'' @ [CHR 0x22]"
    using colonPage_meta by (simp add: parseMarkdownContent_def Let_def orStr_def)
qed

lemma colonPage_body:
  "snd (contentMetaSource (renderSeoMarkdown colonPage)) = colonBody"
  "bodyTitle colonLexer colonBody = ''Pricing: Plans''"
  by code_simp+

theorem round_trip_title_with_colon_witness:
  "snd (contentMetaSource (renderSeoMarkdown colonPage)) = colonBody
   \<and> bodyTitle colonLexer colonBody = ''Pricing: Plans''
   \<and> (\<exists>parsed. parseMarkdownContent colonLexer (renderSeoMarkdown colonPage) = Inr parsed
         \<and> pm_title parsed = [CHR 0x22] @ ''Pricing: Plans'' @ [CHR 0x22]
         \<and> pm_title parsed \<noteq> pc_title colonPage)"
proof -
  from round_trip_title_with_colon [of colonLexer] obtain parsed where
    p: "parseMarkdownContent colonLexer (renderSeoMarkdown colonPage) = Inr parsed"
      "pm_title parsed = [CHR 0x22] @ ''Pricing: Plans'' @ [CHR 0x22]"
      and t: "pc_title colonPage = ''Pricing: Plans''"
    by blast
  from p(2) t have "pm_title parsed \<noteq> pc_title colonPage" by simp
  with p colonPage_body show ?thesis by blast
qed

end
